theory Spec2Isabelle
  imports Main "HOL-Library.Word"
begin

section \<open>License server: validation and lifecycle of license keys\<close>

text \<open>
  A shallow embedding of the license handlers of \<^verbatim>\<open>server.js\<close>: the key generator
  (\<^verbatim>\<open>generateLicenseKey\<close>), the expiration calculator (\<^verbatim>\<open>calculateExpirationDate\<close>),
  the validation endpoint (\<^verbatim>\<open>POST /api/licenses/check\<close>) and the mutators for pausing,
  resuming and extending a license.

  Conventions of the embedding.
  \<^item> A time value is an \<open>int\<close> of milliseconds since the epoch. A JavaScript \<^verbatim>\<open>Date\<close> holds
    a time value of at most \<open>8.64e15\<close> ms in absolute value or is an Invalid Date
    (\<open>js_date\<close>, \<open>TimeClip\<close>). A \<^verbatim>\<open>DATETIME\<close> column holds \<^verbatim>\<open>NULL\<close> or the ISO string
    of a valid date (\<^verbatim>\<open>toISOString\<close>, read back by \<^verbatim>\<open>new Date(...)\<close>), so it is an
    \<open>int option\<close>; \<^verbatim>\<open>toISOString\<close> on an Invalid Date throws, which is an outcome of
    its own. Arithmetic is exact: the rounding of doubles beyond \<open>2^53\<close> is outside the
    model.
  \<^item> The field getters and setters of \<^verbatim>\<open>Date\<close> work on local time. The time zone of the
    host is a parameter \<open>z\<close> of the model: its offset from UTC at each time value and at each
    local time.
  \<^item> The clock of the host is a parameter of each handler that reads it more than once:
    \<open>clock i\<close> is what the \<open>i\<close>-th \<^verbatim>\<open>new Date()\<close> of the request reads, counted from 0
    in program order.
  \<^item> Integer columns are \<open>int\<close>, nullable columns are options, and the truthiness tests
    of the source (\<^verbatim>\<open>if (x)\<close>, \<^verbatim>\<open>!x\<close>, \<^verbatim>\<open>x || d\<close>) are written out.
  \<^item> Strings are sequences of code units below 256.
  \<^item> A rejection carries the reason \<^emph>\<open>code\<close> that the source hands to
    \<^verbatim>\<open>getCustomMessageForUser\<close>; the lookup of the user-facing text, the webhook
    dispatch and the activity log do not touch the license tables and are not modelled.
\<close>

subsection \<open>Time values and the field arithmetic of Date (ECMA-262, 21.4.1)\<close>

type_synonym instant = int

definition msPerSecond :: int where "msPerSecond = 1000"
definition msPerMinute :: int where "msPerMinute = 60000"
definition msPerHour :: int where "msPerHour = 3600000"
definition msPerDay :: int where "msPerDay = 86400000"

definition Day :: "instant \<Rightarrow> int" where
  "Day t = t div msPerDay"

definition TimeWithinDay :: "instant \<Rightarrow> int" where
  "TimeWithinDay t = t mod msPerDay"

definition HourFromTime :: "instant \<Rightarrow> int" where
  "HourFromTime t = (t div msPerHour) mod 24"

definition MinFromTime :: "instant \<Rightarrow> int" where
  "MinFromTime t = (t div msPerMinute) mod 60"

definition SecFromTime :: "instant \<Rightarrow> int" where
  "SecFromTime t = (t div msPerSecond) mod 60"

definition msFromTime :: "instant \<Rightarrow> int" where
  "msFromTime t = t mod msPerSecond"

definition MakeTime :: "int \<Rightarrow> int \<Rightarrow> int \<Rightarrow> int \<Rightarrow> int" where
  "MakeTime hour minute sec ms =
     hour * msPerHour + minute * msPerMinute + sec * msPerSecond + ms"

definition MakeDate :: "int \<Rightarrow> int \<Rightarrow> instant" where
  "MakeDate day time = day * msPerDay + time"

definition DaysInYear :: "int \<Rightarrow> int" where
  "DaysInYear y =
     (if y mod 4 \<noteq> 0 then 365
      else if y mod 100 \<noteq> 0 then 366
      else if y mod 400 \<noteq> 0 then 365
      else 366)"

definition DayFromYear :: "int \<Rightarrow> int" where
  "DayFromYear y =
     365 * (y - 1970) + (y - 1969) div 4 - (y - 1901) div 100 + (y - 1601) div 400"

text \<open>
  The largest year whose first day is not after \<open>t\<close>: the estimate from the mean length
  of a Gregorian year is off by at most one year.
\<close>

definition YearFromTime :: "instant \<Rightarrow> int" where
  "YearFromTime t =
     (let d = Day t; y = 1970 + (d * 400) div 146097
      in if DayFromYear (y + 1) \<le> d then y + 1
         else if DayFromYear y \<le> d then y
         else y - 1)"

definition InLeapYear :: "instant \<Rightarrow> int" where
  "InLeapYear t = (if DaysInYear (YearFromTime t) = 366 then 1 else 0)"

definition DayWithinYear :: "instant \<Rightarrow> int" where
  "DayWithinYear t = Day t - DayFromYear (YearFromTime t)"

definition MonthFromTime :: "instant \<Rightarrow> int" where
  "MonthFromTime t =
     (let d = DayWithinYear t; l = InLeapYear t
      in if d < 31 then 0
         else if d < 59 + l then 1
         else if d < 90 + l then 2
         else if d < 120 + l then 3
         else if d < 151 + l then 4
         else if d < 181 + l then 5
         else if d < 212 + l then 6
         else if d < 243 + l then 7
         else if d < 273 + l then 8
         else if d < 304 + l then 9
         else if d < 334 + l then 10
         else 11)"

text \<open>The day within the year on which month \<open>m\<close> (0 to 11) starts.\<close>

definition monthStart :: "int \<Rightarrow> int \<Rightarrow> int" where
  "monthStart m l =
     (if m = 0 then 0
      else if m = 1 then 31
      else if m = 2 then 59 + l
      else if m = 3 then 90 + l
      else if m = 4 then 120 + l
      else if m = 5 then 151 + l
      else if m = 6 then 181 + l
      else if m = 7 then 212 + l
      else if m = 8 then 243 + l
      else if m = 9 then 273 + l
      else if m = 10 then 304 + l
      else 334 + l)"

definition DateFromTime :: "instant \<Rightarrow> int" where
  "DateFromTime t = DayWithinYear t - monthStart (MonthFromTime t) (InLeapYear t) + 1"

definition MakeDay :: "int \<Rightarrow> int \<Rightarrow> int \<Rightarrow> int" where
  "MakeDay year month date =
     (let ym = year + month div 12; mn = month mod 12;
          l = (if DaysInYear ym = 366 then 1 else 0)
      in DayFromYear ym + monthStart mn l + date - 1)"

text \<open>
  The value of a \<^verbatim>\<open>Date\<close> object: a time value in range, or the Invalid Date (time value
  \<^verbatim>\<open>NaN\<close>). \<open>TimeClip\<close> is the range test that every setter and \<^verbatim>\<open>new Date(number)\<close>
  applies.
\<close>

datatype js_date = InvalidDate | ValidDate instant

definition maxTime :: int where "maxTime = 8640000000000000"

definition TimeClip :: "int \<Rightarrow> js_date" where
  "TimeClip time = (if \<bar>time\<bar> > maxTime then InvalidDate else ValidDate time)"

text \<open>
  The time zone of the host, as the two readings of \<^verbatim>\<open>LocalTZA\<close>: the offset of local time
  from UTC at a time value, and the offset that applies to a local time value (where a local
  time is skipped or repeated at a transition, the host takes the offset before the
  transition).
\<close>

record time_zone =
  offsetAtUTC :: "instant \<Rightarrow> int"
  offsetAtLocal :: "int \<Rightarrow> int"

definition LocalTime :: "time_zone \<Rightarrow> instant \<Rightarrow> int" where
  "LocalTime z t = t + offsetAtUTC z t"

definition UTC :: "time_zone \<Rightarrow> int \<Rightarrow> int" where
  "UTC z t = t - offsetAtLocal z t"

text \<open>
  The getters and setters that the handlers call, on a valid date with time value \<open>t\<close>.
  A setter yields the new value of the date.
\<close>

definition getSeconds :: "time_zone \<Rightarrow> instant \<Rightarrow> int" where
  "getSeconds z t = SecFromTime (LocalTime z t)"

definition getMinutes :: "time_zone \<Rightarrow> instant \<Rightarrow> int" where
  "getMinutes z t = MinFromTime (LocalTime z t)"

definition getHours :: "time_zone \<Rightarrow> instant \<Rightarrow> int" where
  "getHours z t = HourFromTime (LocalTime z t)"

definition getDate :: "time_zone \<Rightarrow> instant \<Rightarrow> int" where
  "getDate z t = DateFromTime (LocalTime z t)"

definition setSeconds :: "time_zone \<Rightarrow> instant \<Rightarrow> int \<Rightarrow> js_date" where
  "setSeconds z t sec =
     (let lt = LocalTime z t;
          date = MakeDate (Day lt) (MakeTime (HourFromTime lt) (MinFromTime lt) sec (msFromTime lt))
      in TimeClip (UTC z date))"

definition setMinutes :: "time_zone \<Rightarrow> instant \<Rightarrow> int \<Rightarrow> js_date" where
  "setMinutes z t minute =
     (let lt = LocalTime z t;
          date = MakeDate (Day lt)
                   (MakeTime (HourFromTime lt) minute (SecFromTime lt) (msFromTime lt))
      in TimeClip (UTC z date))"

definition setHours :: "time_zone \<Rightarrow> instant \<Rightarrow> int \<Rightarrow> js_date" where
  "setHours z t hour =
     (let lt = LocalTime z t;
          date = MakeDate (Day lt) (MakeTime hour (MinFromTime lt) (SecFromTime lt) (msFromTime lt))
      in TimeClip (UTC z date))"

definition setDate :: "time_zone \<Rightarrow> instant \<Rightarrow> int \<Rightarrow> js_date" where
  "setDate z t date =
     (let lt = LocalTime z t;
          newDate = MakeDate (MakeDay (YearFromTime lt) (MonthFromTime lt) date) (TimeWithinDay lt)
      in TimeClip (UTC z newDate))"

subsection \<open>Expiration calculator\<close>

text \<open>
  \<^verbatim>\<open>calculateExpirationDate(durationValue, durationUnit, isUnlimited)\<close>, in the zone \<open>z\<close>,
  with the reading \<open>now\<close> of its \<^verbatim>\<open>new Date()\<close> as a parameter. The result is \<open>None\<close> for
  \<^verbatim>\<open>null\<close> and a date otherwise. The duration value is an integer (an \<^verbatim>\<open>INTEGER\<close>
  column, or the result of \<^verbatim>\<open>parseInt\<close> at the call site), on which the function's own
  \<^verbatim>\<open>parseInt\<close> is the identity.
\<close>

definition calculateExpirationDate ::
  "time_zone \<Rightarrow> instant \<Rightarrow> int \<Rightarrow> string \<Rightarrow> bool \<Rightarrow> js_date option" where
  "calculateExpirationDate z now durationValue durationUnit isUnlimited =
     (if isUnlimited then None
      else let expiresAt = now
        in Some
          (if durationUnit = ''seconds''
             then setSeconds z expiresAt (getSeconds z expiresAt + durationValue)
           else if durationUnit = ''minutes''
             then setMinutes z expiresAt (getMinutes z expiresAt + durationValue)
           else if durationUnit = ''hours''
             then setHours z expiresAt (getHours z expiresAt + durationValue)
           else if durationUnit = ''days''
             then setDate z expiresAt (getDate z expiresAt + durationValue)
           else setDate z expiresAt (getDate z expiresAt + durationValue)))"

subsection \<open>Key generator\<close>

text \<open>
  The singleton row of \<^verbatim>\<open>license_format_config\<close>. The column \<^verbatim>\<open>options\<close> holds JSON;
  \<open>options\<close> is \<open>None\<close> when the column is empty or does not parse (the source then
  keeps its default object), and each toggle is true exactly when the parsed field
  \<^verbatim>\<open>=== true\<close>.
\<close>

record format_options =
  bigLetters :: bool
  digits :: bool
  specialChars :: bool

record license_format_config =
  format :: string
  options :: "format_options option"

text \<open>
  \<^verbatim>\<open>crypto.randomBytes(n)\<close>: \<open>n\<close> bytes of a random source, which is a parameter of the
  model.
\<close>

definition randomBytes :: "(nat \<Rightarrow> 8 word) \<Rightarrow> nat \<Rightarrow> 8 word list" where
  "randomBytes random n = map random [0..<n]"

text \<open>
  The \<^verbatim>\<open>for\<close> loop of \<^verbatim>\<open>generateLicenseKey\<close> over the positions of the template:
  \<open>i\<close> is the loop counter and \<open>licenseKey\<close> the string built so far.
\<close>

function keyLoop :: "string \<Rightarrow> string \<Rightarrow> 8 word list \<Rightarrow> nat \<Rightarrow> string \<Rightarrow> string" where
  "keyLoop fmt chars bytes i licenseKey =
     (if i < length fmt then
        (if fmt ! i = CHR ''*'' then
           (let randomIndex = unat (bytes ! i) mod length chars
            in keyLoop fmt chars bytes (Suc i) (licenseKey @ [chars ! randomIndex]))
         else keyLoop fmt chars bytes (Suc i) (licenseKey @ [fmt ! i]))
      else licenseKey)"
  by pat_completeness auto
termination
  by (relation "measure (\<lambda>(fmt, chars, bytes, i, licenseKey). length fmt - i)") auto

text \<open>The loop of \<^verbatim>\<open>generateDefaultLicenseKey\<close>, over a fixed length.\<close>

function defaultKeyLoop :: "nat \<Rightarrow> string \<Rightarrow> 8 word list \<Rightarrow> nat \<Rightarrow> string \<Rightarrow> string" where
  "defaultKeyLoop len chars bytes i licenseKey =
     (if i < len then
        (let randomIndex = unat (bytes ! i) mod length chars
         in defaultKeyLoop len chars bytes (Suc i) (licenseKey @ [chars ! randomIndex]))
      else licenseKey)"
  by pat_completeness auto
termination
  by (relation "measure (\<lambda>(len, chars, bytes, i, licenseKey). len - i)") auto

definition generateDefaultLicenseKey :: "(nat \<Rightarrow> 8 word) \<Rightarrow> string" where
  "generateDefaultLicenseKey random =
     (let len = 9;
          chars = ''ABCDEFGHIJKLMNOPQRSTUVWXYZabcdefghijklmnopqrstuvwxyz0123456789''
      in defaultKeyLoop len chars (randomBytes random len) 0 [])"

text \<open>
  The template that the generator works on, \<^verbatim>\<open>const format = config?.format || '**********'\<close>:
  the stored template, or ten wildcards when there is no row or the stored template is
  empty. (The endpoint that saves the configuration refuses an empty template and one
  without a wildcard, and the schema default and the seeded row are ten wildcards.)
\<close>

definition templateOf :: "license_format_config option \<Rightarrow> string" where
  "templateOf config =
     (case config of
        None \<Rightarrow> ''**********''
      | Some c \<Rightarrow> if format c = [] then ''**********'' else format c)"

text \<open>The options that the generator works on: the parsed column, or the default object.\<close>

definition optionsOf :: "license_format_config option \<Rightarrow> format_options" where
  "optionsOf config =
     (case config of
        None \<Rightarrow> \<lparr>bigLetters = False, digits = True, specialChars = False\<rparr>
      | Some c \<Rightarrow>
          (case options c of
             None \<Rightarrow> \<lparr>bigLetters = False, digits = True, specialChars = False\<rparr>
           | Some parsed \<Rightarrow> parsed))"

text \<open>
  \<^verbatim>\<open>generateLicenseKey\<close>. \<open>err\<close> is the error of the configuration query and \<open>config\<close>
  the row it returns (\<open>None\<close>: no row). The key is what the source passes to its callback.
\<close>

definition generateLicenseKey ::
  "(nat \<Rightarrow> 8 word) \<Rightarrow> bool \<Rightarrow> license_format_config option \<Rightarrow> string" where
  "generateLicenseKey random err config =
     (if err then generateDefaultLicenseKey random
      else
        let fmt = templateOf config;
            opts = optionsOf config;
            chars0 = ''abcdefghijklmnopqrstuvwxyz'';
            chars1 = (if bigLetters opts then chars0 @ ''ABCDEFGHIJKLMNOPQRSTUVWXYZ'' else chars0);
            chars2 = (if digits opts then chars1 @ ''0123456789'' else chars1);
            chars3 = (if specialChars opts then chars2 @ ''!@#$%^&*'' else chars2);
            chars = (if chars3 = [] then ''abcdefghijklmnopqrstuvwxyz0123456789'' else chars3)
        in keyLoop fmt chars (randomBytes random (length fmt)) 0 [])"

subsection \<open>The record store\<close>

text \<open>
  A row of \<^verbatim>\<open>licenses\<close>. The unique column \<^verbatim>\<open>license_key\<close> is the key of the table
  below. Flags are the integers of the columns.
\<close>

record license =
  app_id :: string
  duration_value :: "int option"
  duration_unit :: "string option"
  is_unlimited :: int
  expires_at :: "instant option"
  is_active :: int
  locked_hwid :: "string option"
  is_banned :: int
  is_paused :: int
  paused_at :: "instant option"
  paused_expires_at :: "instant option"
  created_by :: "nat option"

text \<open>
  The columns of \<^verbatim>\<open>applications\<close> that the validation query joins in, under the aliases
  of its \<^verbatim>\<open>SELECT\<close>; the unique column \<^verbatim>\<open>app_id\<close> is the key of the table.
\<close>

record application =
  app_name :: string
  app_version :: "string option"
  hwid_lock_enabled :: "int option"
  webhook_url :: "string option"
  app_owner_id :: "nat option"

record usage =
  usage_hwid :: "string option"
  last_check :: instant

record db =
  licenses :: "string \<rightharpoonup> license"
  applications :: "string \<rightharpoonup> application"
  license_usage :: "string \<rightharpoonup> usage"

text \<open>
  Truthiness of a nullable string: neither null nor empty. (A nullable number is truthy
  when it is neither null nor zero; that test is written out where it occurs.)
\<close>

definition truthy :: "string option \<Rightarrow> bool" where
  "truthy s = (case s of None \<Rightarrow> False | Some v \<Rightarrow> v \<noteq> [])"

text \<open>
  \<^verbatim>\<open>String.prototype.trim\<close>: the white space and line terminators of ECMAScript below
  256 are tab, line feed, vertical tab, form feed, carriage return, space and the
  no-break space.
\<close>

definition isWhiteSpace :: "char \<Rightarrow> bool" where
  "isWhiteSpace c =
     (c \<in> set [CHR 0x09, CHR 0x0A, CHR 0x0B, CHR 0x0C, CHR 0x0D, CHR '' '', CHR 0xA0])"

definition trim :: "string \<Rightarrow> string" where
  "trim s = rev (dropWhile isWhiteSpace (rev (dropWhile isWhiteSpace s)))"

text \<open>
  The lookup of the validation endpoint:
  \<^verbatim>\<open>FROM licenses l JOIN applications a ON l.app_id = a.app_id
  WHERE l.license_key = ? AND l.app_id = ? AND l.is_active = 1\<close>.
\<close>

definition findLicense :: "db \<Rightarrow> string \<Rightarrow> string \<Rightarrow> (license \<times> application) option" where
  "findLicense d licenseKey appId =
     (case licenses d licenseKey of
        None \<Rightarrow> None
      | Some l \<Rightarrow>
          if app_id l = appId \<and> is_active l = 1 then
            (case applications d appId of
               None \<Rightarrow> None
             | Some a \<Rightarrow> Some (l, a))
          else None)"

text \<open>\<^verbatim>\<open>UPDATE licenses SET ... WHERE license_key = ?\<close>, the assignment being \<open>f\<close>.\<close>

definition updateLicense :: "db \<Rightarrow> string \<Rightarrow> (license \<Rightarrow> license) \<Rightarrow> db" where
  "updateLicense d licenseKey f =
     (case licenses d licenseKey of
        None \<Rightarrow> d
      | Some l \<Rightarrow> d\<lparr>licenses := (licenses d)(licenseKey \<mapsto> f l)\<rparr>)"

text \<open>\<^verbatim>\<open>INSERT OR REPLACE INTO license_usage\<close>, with \<^verbatim>\<open>CURRENT_TIMESTAMP\<close> read as \<open>now\<close>.\<close>

definition replaceUsage :: "db \<Rightarrow> string \<Rightarrow> string option \<Rightarrow> instant \<Rightarrow> db" where
  "replaceUsage d licenseKey h now =
     d\<lparr>license_usage := (license_usage d)(licenseKey \<mapsto> \<lparr>usage_hwid = h, last_check = now\<rparr>)\<rparr>"

subsection \<open>Validation endpoint\<close>

text \<open>
  The reason codes of the rejections: the keys passed to \<^verbatim>\<open>getCustomMessageForUser\<close>,
  and the two rejections whose text is fixed in the handler (missing fields, configuration
  error).
\<close>

datatype reason_code =
    MissingFields
  | DatabaseError
  | InvalidLicense
  | VersionMismatch
  | LicenseBanned
  | LicensePaused
  | LicenseInactive
  | HwidRequired
  | HwidMismatch
  | LicenseExpired
  | ConfigurationError

text \<open>
  The outcome of a check. \<open>Rejected\<close> is the response \<^verbatim>\<open>success: false\<close> with its reason;
  \<open>Accepted\<close> is the success payload with \<^verbatim>\<open>expires_at\<close>, \<^verbatim>\<open>is_unlimited\<close>,
  \<^verbatim>\<open>is_activated\<close> and \<^verbatim>\<open>days_remaining\<close>; \<open>CheckThrown\<close> is an exception thrown in the
  handler, after which no response is sent.
\<close>

datatype check_response =
    Rejected reason_code
  | Accepted "instant option" bool bool "int option"
  | CheckThrown

text \<open>
  \<^verbatim>\<open>hwidLockEnabled\<close>: the column is not null and equals 1 (as a number, or as the
  string \<^verbatim>\<open>'1'\<close>, which the integer column does not hold).
\<close>

definition hwidLockEnabled :: "application \<Rightarrow> bool" where
  "hwidLockEnabled a = (case hwid_lock_enabled a of None \<Rightarrow> False | Some v \<Rightarrow> v = 1)"

text \<open>\<^verbatim>\<open>Math.ceil((expiresAt - now) / (1000 * 60 * 60 * 24))\<close>.\<close>

definition ceilDays :: "int \<Rightarrow> int" where
  "ceilDays ms = - ((- ms) div msPerDay)"

text \<open>
  The last part of the handler: usage upsert, time remaining, success payload. \<open>now\<close> is
  the reading of \<^verbatim>\<open>const now = new Date()\<close> at the head of the policy.
\<close>

definition acceptCheck ::
  "db \<Rightarrow> instant \<Rightarrow> license \<Rightarrow> string \<Rightarrow> string option \<Rightarrow> instant option \<Rightarrow> bool
     \<Rightarrow> db \<times> check_response" where
  "acceptCheck d now l licenseKey hwid expiresAt isActivated =
     (let d' = (if truthy hwid then replaceUsage d licenseKey hwid now
                else replaceUsage d licenseKey None now);
          timeRemaining =
            (case expiresAt of
               None \<Rightarrow> None
             | Some e \<Rightarrow> if is_unlimited l = 0 then Some (ceilDays (e - now)) else None)
      in (d', Accepted expiresAt (is_unlimited l = 1) isActivated timeRemaining))"

text \<open>
  The test that opens the activation branch,
  \<^verbatim>\<open>!license.is_unlimited && !license.expires_at && license.duration_value && license.duration_unit\<close>:
  when it holds, the configured duration (value and unit).
\<close>

definition notYetActivated :: "license \<Rightarrow> (int \<times> string) option" where
  "notYetActivated l =
     (case (duration_value l, duration_unit l) of
        (Some v, Some u) \<Rightarrow>
          if is_unlimited l = 0 \<and> expires_at l = None \<and> v \<noteq> 0 \<and> u \<noteq> [] then Some (v, u)
          else None
      | _ \<Rightarrow> None)"

text \<open>\<^verbatim>\<open>!hwid || hwid.trim() === ''\<close>.\<close>

definition hwidMissing :: "string option \<Rightarrow> bool" where
  "hwidMissing hwid = (case hwid of None \<Rightarrow> True | Some h \<Rightarrow> h = [] \<or> trim h = [])"

text \<open>
  The hardware-lock block of the branch for an activated license (\<^verbatim>\<open>license.expires_at\<close>
  set): it rejects with a mismatch, or falls through, possibly after a write to
  \<^verbatim>\<open>locked_hwid\<close>.
\<close>

definition hwidLockActivated ::
  "db \<Rightarrow> string \<Rightarrow> license \<Rightarrow> application \<Rightarrow> string option \<Rightarrow> reason_code + db" where
  "hwidLockActivated d key l a hwid =
     (if hwidLockEnabled a then
        (if \<not> truthy (locked_hwid l) then
           (if truthy hwid then Inr (updateLicense d key (\<lambda>r. r\<lparr>locked_hwid := hwid\<rparr>))
            else Inr d)
         else if locked_hwid l \<noteq> hwid then Inl HwidMismatch
         else Inr d)
      else
        (if truthy (locked_hwid l)
         then Inr (updateLicense d key (\<lambda>r. r\<lparr>locked_hwid := None\<rparr>))
         else Inr d))"

text \<open>The hardware-lock block of the branch for an unlimited license: it never rejects.\<close>

definition hwidLockUnlimited ::
  "db \<Rightarrow> string \<Rightarrow> license \<Rightarrow> application \<Rightarrow> string option \<Rightarrow> db" where
  "hwidLockUnlimited d key l a hwid =
     (if hwidLockEnabled a then
        (if \<not> truthy (locked_hwid l) \<and> truthy hwid
         then updateLicense d key (\<lambda>r. r\<lparr>locked_hwid := hwid\<rparr>)
         else d)
      else
        (if truthy (locked_hwid l)
         then updateLicense d key (\<lambda>r. r\<lparr>locked_hwid := None\<rparr>)
         else d))"

text \<open>
  \<^verbatim>\<open>app.post('/api/licenses/check')\<close>. The arguments \<open>appId\<close>, \<open>licenseKey\<close>, \<open>hwid\<close>
  and \<open>appVersion\<close> are the body fields \<^verbatim>\<open>app_id\<close>, \<^verbatim>\<open>license_key\<close>, \<^verbatim>\<open>hwid\<close> and
  \<^verbatim>\<open>app_version\<close>; \<open>err\<close> is the error of the lookup query. On the paths that the model
  covers, \<open>clock 0\<close> is the reading of \<^verbatim>\<open>const now = new Date()\<close> and \<open>clock 1\<close> the
  later reading inside \<^verbatim>\<open>calculateExpirationDate\<close>, which only the activation branch
  calls. The writes of the handler (\<^verbatim>\<open>db.run\<close> without a callback) are applied in program
  order. In the activation branch the arguments of the write contain
  \<^verbatim>\<open>expiresAt.toISOString()\<close>, which throws on an Invalid Date (and would on null)
  before anything is written. The result is the store after the request and the outcome.
\<close>

definition checkLicense ::
  "time_zone \<Rightarrow> db \<Rightarrow> (nat \<Rightarrow> instant) \<Rightarrow> bool \<Rightarrow> string option \<Rightarrow> string option
     \<Rightarrow> string option \<Rightarrow> string option \<Rightarrow> db \<times> check_response" where
  "checkLicense z d clock err appId licenseKey hwid appVersion =
     (case (appId, licenseKey) of
        (Some aid, Some key) \<Rightarrow>
          if aid = [] \<or> key = [] then (d, Rejected MissingFields)
          else if err then (d, Rejected DatabaseError)
          else
            (case findLicense d key aid of
               None \<Rightarrow> (d, Rejected InvalidLicense)
             | Some (l, a) \<Rightarrow>
                 if truthy appVersion \<and> truthy (app_version a) \<and> app_version a \<noteq> appVersion
                   then (d, Rejected VersionMismatch)
                 else if is_banned l = 1 then (d, Rejected LicenseBanned)
                 else if is_paused l = 1 then (d, Rejected LicensePaused)
                 else if is_active l = 0 then (d, Rejected LicenseInactive)
                 else
                   let now = clock 0 in
                   (case notYetActivated l of
                      Some (v, u) \<Rightarrow>
                        if hwidLockEnabled a \<and> hwidMissing hwid then (d, Rejected HwidRequired)
                        else
                          (case calculateExpirationDate z (clock 1) v u False of
                             Some (ValidDate e) \<Rightarrow>
                               let d1 = (if hwidLockEnabled a \<and> truthy hwid
                                         then updateLicense d key
                                                (\<lambda>r. r\<lparr>expires_at := Some e, locked_hwid := hwid\<rparr>)
                                         else updateLicense d key
                                                (\<lambda>r. r\<lparr>expires_at := Some e, locked_hwid := None\<rparr>))
                               in acceptCheck d1 now l key hwid (Some e) True
                           | _ \<Rightarrow> (d, CheckThrown))
                    | None \<Rightarrow>
                        (case expires_at l of
                           Some e \<Rightarrow>
                             (case hwidLockActivated d key l a hwid of
                                Inl reason \<Rightarrow> (d, Rejected reason)
                              | Inr d1 \<Rightarrow>
                                  if now > e then (d1, Rejected LicenseExpired)
                                  else acceptCheck d1 now l key hwid (Some e) True)
                         | None \<Rightarrow>
                             if is_unlimited l \<noteq> 0
                             then acceptCheck (hwidLockUnlimited d key l a hwid) now l key hwid
                                    None True
                             else (d, Rejected ConfigurationError))))
      | _ \<Rightarrow> (d, Rejected MissingFields))"

subsection \<open>Administrative mutators: pause, resume, extend\<close>

text \<open>
  What the session and the permission resolver report about the caller:
  \<^verbatim>\<open>req.session.userId\<close>, the error of \<^verbatim>\<open>getUserPermissions\<close>, the answer of
  \<^verbatim>\<open>isAdminUser\<close>, and the entries \<^verbatim>\<open>permissions['licenses']?.pause\<close> and
  \<^verbatim>\<open>permissions['licenses']?.extend\<close>.
\<close>

record caller =
  userId :: "nat option"
  permissionsErr :: bool
  isAdmin :: bool
  mayPause :: bool
  mayExtend :: bool

text \<open>The errors that the store reports to the callbacks of a handler.\<close>

record store_errors =
  selectErr :: bool
  updateErr :: bool

text \<open>
  The outcome of a mutator: an error response with its HTTP status and text; the response
  \<^verbatim>\<open>success: true\<close>, with \<^verbatim>\<open>new_expires_at\<close> where the handler reports it; or an
  exception thrown in the handler (\<^verbatim>\<open>toISOString\<close> on an Invalid Date), after which no
  response is sent.
\<close>

datatype response =
    Error nat string
  | Success "instant option"
  | Thrown

text \<open>
  The row that a mutator reads: by key for the administrator, by key and owner
  (\<^verbatim>\<open>AND created_by = ?\<close>) otherwise.
\<close>

definition selectLicense :: "db \<Rightarrow> bool \<Rightarrow> nat \<Rightarrow> string \<Rightarrow> license option" where
  "selectLicense d admin uid licenseKey =
     (case licenses d licenseKey of
        None \<Rightarrow> None
      | Some l \<Rightarrow> if admin \<or> created_by l = Some uid then Some l else None)"

text \<open>
  The write of a mutator, under the same \<^verbatim>\<open>WHERE\<close> clause as its read; the second
  component is \<^verbatim>\<open>this.changes\<close>.
\<close>

definition updateSelected ::
  "db \<Rightarrow> bool \<Rightarrow> nat \<Rightarrow> string \<Rightarrow> (license \<Rightarrow> license) \<Rightarrow> db \<times> nat" where
  "updateSelected d admin uid licenseKey f =
     (case selectLicense d admin uid licenseKey of
        None \<Rightarrow> (d, 0)
      | Some l \<Rightarrow> (d\<lparr>licenses := (licenses d)(licenseKey \<mapsto> f l)\<rparr>, 1))"

text \<open>
  \<^verbatim>\<open>app.post('/api/licenses/:licenseKey/pause')\<close>. The handler reads the clock once:
  \<open>now\<close>.
\<close>

definition pauseLicense ::
  "caller \<Rightarrow> store_errors \<Rightarrow> db \<Rightarrow> instant \<Rightarrow> string \<Rightarrow> db \<times> response" where
  "pauseLicense c errs d now licenseKey =
     (case userId c of
        None \<Rightarrow> (d, Error 401 ''Unauthorized'')
      | Some uid \<Rightarrow>
          if uid = 0 then (d, Error 401 ''Unauthorized'')
          else if permissionsErr c then (d, Error 500 ''Database error'')
          else if \<not> isAdmin c \<and> \<not> mayPause c
            then (d, Error 403 ''You do not have permission to pause licenses'')
          else if selectErr errs then (d, Error 404 ''License not found'')
          else
            (case selectLicense d (isAdmin c) uid licenseKey of
               None \<Rightarrow> (d, Error 404 ''License not found'')
             | Some l \<Rightarrow>
                 if is_active l \<noteq> 1 then (d, Error 400 ''Only active licenses can be paused'')
                 else if is_banned l = 1 then (d, Error 400 ''Banned licenses cannot be paused'')
                 else if is_unlimited l \<noteq> 1 \<and> (case expires_at l of None \<Rightarrow> False | Some e \<Rightarrow> e \<le> now)
                   then (d, Error 400 ''Expired licenses cannot be paused'')
                 else if updateErr errs then (d, Error 500 ''update failed'')
                 else
                   (case updateSelected d (isAdmin c) uid licenseKey
                           (\<lambda>r. r\<lparr>is_paused := 1, paused_at := Some now,
                                   paused_expires_at := expires_at r\<rparr>) of
                      (d', changes) \<Rightarrow>
                        if changes = 0 then (d, Error 404 ''License not found'')
                        else (d', Success None))))"

text \<open>
  \<^verbatim>\<open>app.post('/api/licenses/:licenseKey/unpause')\<close>. With a snapshot, the handler reads
  the clock for \<^verbatim>\<open>pausedAt\<close> only when \<^verbatim>\<open>paused_at\<close> is null, and then for \<^verbatim>\<open>now\<close>;
  \<^verbatim>\<open>new Date(pausedExpires.getTime() + pausedDuration)\<close> clips the sum, and
  \<^verbatim>\<open>toISOString\<close> throws when the sum is out of range.
\<close>

definition unpauseLicense ::
  "caller \<Rightarrow> store_errors \<Rightarrow> db \<Rightarrow> (nat \<Rightarrow> instant) \<Rightarrow> string \<Rightarrow> db \<times> response" where
  "unpauseLicense c errs d clock licenseKey =
     (case userId c of
        None \<Rightarrow> (d, Error 401 ''Unauthorized'')
      | Some uid \<Rightarrow>
          if uid = 0 then (d, Error 401 ''Unauthorized'')
          else if permissionsErr c then (d, Error 500 ''Database error'')
          else if \<not> isAdmin c \<and> \<not> mayPause c
            then (d, Error 403 ''You do not have permission to unpause licenses'')
          else if selectErr errs then (d, Error 404 ''License not found'')
          else
            (case selectLicense d (isAdmin c) uid licenseKey of
               None \<Rightarrow> (d, Error 404 ''License not found'')
             | Some l \<Rightarrow>
                 (case (case paused_expires_at l of
                          Some pausedExpires \<Rightarrow>
                            let pausedAt = (case paused_at l of Some p \<Rightarrow> p | None \<Rightarrow> clock 0);
                                now = (case paused_at l of Some p \<Rightarrow> clock 0 | None \<Rightarrow> clock 1);
                                pausedDuration = now - pausedAt
                            in (case TimeClip (pausedExpires + pausedDuration) of
                                  ValidDate e \<Rightarrow> Some (Some e)
                                | InvalidDate \<Rightarrow> None)
                        | None \<Rightarrow> Some (expires_at l)) of
                    None \<Rightarrow> (d, Thrown)
                  | Some newExpiresAt \<Rightarrow>
                      if updateErr errs then (d, Error 500 ''update failed'')
                      else
                        (case updateSelected d (isAdmin c) uid licenseKey
                                (\<lambda>r. r\<lparr>is_paused := 0, paused_at := None,
                                        paused_expires_at := None,
                                        expires_at := newExpiresAt\<rparr>) of
                           (d', changes) \<Rightarrow>
                             if changes = 0 then (d, Error 404 ''License not found'')
                             else (d', Success None)))))"

text \<open>
  \<^verbatim>\<open>app.post('/api/licenses/extend')\<close>: the key and \<^verbatim>\<open>additional_days\<close> come in the
  body, and the read and the write are always restricted to the caller's own licenses.
  \<^verbatim>\<open>additional_days\<close> is taken to be a JSON number holding an integer, on which
  \<^verbatim>\<open>parseInt\<close> is the identity. For a license without \<^verbatim>\<open>expires_at\<close> the calculator
  reads the clock first (\<open>clock 0\<close>) and \<^verbatim>\<open>const now = new Date()\<close> second (\<open>clock 1\<close>);
  otherwise \<^verbatim>\<open>now\<close> is \<open>clock 0\<close>. An Invalid Date compares false both ways, so it is not
  rejected as expired and the base of the extension is then \<^verbatim>\<open>now\<close>. The inner \<open>case\<close>
  computes \<^verbatim>\<open>currentExpiry\<close> with the reading that \<^verbatim>\<open>now\<close> gets; its \<open>None\<close> is the
  early return for a license without duration (the calculator, called with
  \<^verbatim>\<open>isUnlimited = false\<close>, returns a date). \<^verbatim>\<open>newExpiry.toISOString()\<close> is evaluated
  before the write and throws on an Invalid Date. The write also adds
  \<^verbatim>\<open>additional_days\<close> to \<^verbatim>\<open>duration_value\<close> (\<^verbatim>\<open>COALESCE(duration_value, 0) + ?\<close>), and
  the handler does not look at \<^verbatim>\<open>this.changes\<close>.
\<close>

definition extendLicense ::
  "caller \<Rightarrow> store_errors \<Rightarrow> time_zone \<Rightarrow> db \<Rightarrow> (nat \<Rightarrow> instant) \<Rightarrow> string option
     \<Rightarrow> int option \<Rightarrow> db \<times> response" where
  "extendLicense c errs z d clock licenseKey additionalDays =
     (case userId c of
        None \<Rightarrow> (d, Error 401 ''Unauthorized'')
      | Some uid \<Rightarrow>
          if uid = 0 then (d, Error 401 ''Unauthorized'')
          else if permissionsErr c then (d, Error 500 ''Database error'')
          else if \<not> mayExtend c
            then (d, Error 403 ''You do not have permission to extend licenses'')
          else
            (case (licenseKey, additionalDays) of
               (Some key, Some days) \<Rightarrow>
                 if key = [] \<or> days = 0
                   then (d, Error 400 ''license_key and additional_days are required'')
                 else if selectErr errs then (d, Error 500 ''select failed'')
                 else
                   (case selectLicense d False uid key of
                      None \<Rightarrow> (d, Error 404 ''License not found'')
                    | Some l \<Rightarrow>
                        if is_unlimited l = 1 then (d, Error 400 ''Cannot extend unlimited license'')
                        else
                          (case (case expires_at l of
                                   Some e \<Rightarrow> Some (ValidDate e, clock 0)
                                 | None \<Rightarrow>
                                     (case (duration_value l, duration_unit l) of
                                        (Some v, Some u) \<Rightarrow>
                                          if v \<noteq> 0 \<and> u \<noteq> []
                                          then map_option (\<lambda>ce. (ce, clock 1))
                                                 (calculateExpirationDate z (clock 0) v u False)
                                          else None
                                      | _ \<Rightarrow> None)) of
                             None \<Rightarrow> (d, Error 400 ''License has no duration set'')
                           | Some (currentExpiry, now) \<Rightarrow>
                               if (case currentExpiry of
                                     ValidDate e \<Rightarrow> e \<le> now
                                   | InvalidDate \<Rightarrow> False)
                                 then (d, Error 400 ''Cannot extend expired license'')
                               else
                                 let baseDate = (case currentExpiry of
                                                   ValidDate e \<Rightarrow> if e > now then e else now
                                                 | InvalidDate \<Rightarrow> now)
                                 in (case setDate z baseDate (getDate z baseDate + days) of
                                       InvalidDate \<Rightarrow> (d, Thrown)
                                     | ValidDate newExpiry \<Rightarrow>
                                         if updateErr errs then (d, Error 500 ''update failed'')
                                         else
                                           (fst (updateSelected d False uid key
                                                   (\<lambda>r. r\<lparr>expires_at := Some newExpiry,
                                                           duration_value :=
                                                             Some ((case duration_value r of
                                                                      None \<Rightarrow> 0
                                                                    | Some v \<Rightarrow> v) + days)\<rparr>)),
                                            Success (Some newExpiry)))))
             | _ \<Rightarrow> (d, Error 400 ''license_key and additional_days are required'')))"

text \<open>
  \<^verbatim>\<open>app.post('/api/licenses/:licenseKey/extend')\<close>: the key comes in the path, the
  requested duration (\<^verbatim>\<open>duration_value\<close>, \<^verbatim>\<open>duration_unit\<close>) in the body;
  \<^verbatim>\<open>duration_value\<close> is taken to be a JSON number holding an integer, on which
  \<^verbatim>\<open>parseInt\<close> is the identity. \<^verbatim>\<open>const now = new Date()\<close> is \<open>clock 0\<close>, the reading
  of the calculator is \<open>clock 1\<close>, and the \<^verbatim>\<open>new Date().getTime()\<close> that is subtracted for
  an activated license is \<open>clock 2\<close>. \<^verbatim>\<open>newExpiresAt.toISOString()\<close> is evaluated before
  the write and throws on an Invalid Date; so does \<^verbatim>\<open>getTime\<close> on a null result of the
  calculator, which is called with \<^verbatim>\<open>isUnlimited = false\<close> and returns none.
\<close>

definition extendLicenseByKey ::
  "caller \<Rightarrow> store_errors \<Rightarrow> time_zone \<Rightarrow> db \<Rightarrow> (nat \<Rightarrow> instant) \<Rightarrow> string \<Rightarrow> int option
     \<Rightarrow> string option \<Rightarrow> db \<times> response" where
  "extendLicenseByKey c errs z d clock licenseKey durationValue durationUnit =
     (case userId c of
        None \<Rightarrow> (d, Error 401 ''Unauthorized'')
      | Some uid \<Rightarrow>
          if uid = 0 then (d, Error 401 ''Unauthorized'')
          else if permissionsErr c then (d, Error 500 ''Database error'')
          else if \<not> isAdmin c \<and> \<not> mayExtend c
            then (d, Error 403 ''You do not have permission to extend licenses'')
          else
            (case (durationValue, durationUnit) of
               (Some dv, Some du) \<Rightarrow>
                 if dv = 0 \<or> du = []
                   then (d, Error 400 ''duration_value and duration_unit are required'')
                 else if selectErr errs then (d, Error 404 ''License not found'')
                 else
                   (case selectLicense d (isAdmin c) uid licenseKey of
                      None \<Rightarrow> (d, Error 404 ''License not found'')
                    | Some l \<Rightarrow>
                        let now = clock 0 in
                        if is_unlimited l = 1 then (d, Error 400 ''Cannot extend unlimited license'')
                        else if (case expires_at l of None \<Rightarrow> False | Some e \<Rightarrow> e \<le> now)
                          then (d, Error 400 ''Cannot extend expired license'')
                        else
                          (case (case calculateExpirationDate z (clock 1) dv du False of
                                   Some (ValidDate additionalTime) \<Rightarrow>
                                     (case expires_at l of
                                        Some currentExpires \<Rightarrow>
                                          TimeClip (currentExpires + (additionalTime - clock 2))
                                      | None \<Rightarrow> ValidDate additionalTime)
                                 | _ \<Rightarrow> InvalidDate) of
                             InvalidDate \<Rightarrow> (d, Thrown)
                           | ValidDate newExpiresAt \<Rightarrow>
                               if updateErr errs then (d, Error 500 ''update failed'')
                               else
                                 (case updateSelected d (isAdmin c) uid licenseKey
                                         (\<lambda>r. r\<lparr>expires_at := Some newExpiresAt\<rparr>) of
                                    (d', changes) \<Rightarrow>
                                      if changes = 0 then (d, Error 404 ''License not found'')
                                      else (d', Success None))))
             | _ \<Rightarrow> (d, Error 400 ''duration_value and duration_unit are required'')))"

subsection \<open>Notions of the specification and example stores\<close>

text \<open>
  The length of a duration in milliseconds as the specification words it: the value in
  seconds, minutes, hours or days, an unrecognised unit counting as days. The theorems
  compare the dates that the code computes with it.
\<close>

definition durationMs :: "int \<Rightarrow> string \<Rightarrow> int" where
  "durationMs v u =
     (if u = ''seconds'' then v * 1000
      else if u = ''minutes'' then v * 60000
      else if u = ''hours'' then v * 3600000
      else v * 86400000)"

text \<open>
  Adding \<open>delta\<close> milliseconds to \<open>now\<close> is plain in the zone \<open>z\<close> when the offset that
  applies to the local time \<open>delta\<close> after the local time of \<open>now\<close> is the offset at \<open>now\<close>
  (no change of offset in between), and the sum is a time value in the range of a date.
\<close>

definition plainAddition :: "time_zone \<Rightarrow> instant \<Rightarrow> int \<Rightarrow> bool" where
  "plainAddition z now delta =
     (offsetAtLocal z (LocalTime z now + delta) = offsetAtUTC z now \<and> \<bar>now + delta\<bar> \<le> maxTime)"

text \<open>An error response, as opposed to a success and to an exception.\<close>

definition isError :: "response \<Rightarrow> bool" where
  "isError r = (case r of Error status text \<Rightarrow> True | Success e \<Rightarrow> False | Thrown \<Rightarrow> False)"

text \<open>
  The version gate of the validation endpoint lets a request pass when it names no version,
  when the application requires none, or when the two are equal.
\<close>

definition versionAccepted :: "application \<Rightarrow> string option \<Rightarrow> bool" where
  "versionAccepted a appVersion =
     (\<not> (truthy appVersion \<and> truthy (app_version a) \<and> app_version a \<noteq> appVersion))"

text \<open>
  Concrete rows and stores for the evaluations below: one application \<^verbatim>\<open>app\<close> with
  required version \<^verbatim>\<open>1.0\<close>, with and without hardware lock, and one license \<^verbatim>\<open>KEY\<close> of
  30 days that has never been activated.
\<close>

definition lockedApp :: application where
  "lockedApp = \<lparr>app_name = ''Demo'', app_version = Some ''1.0'', hwid_lock_enabled = Some 1,
     webhook_url = None, app_owner_id = Some 1\<rparr>"

definition openApp :: application where
  "openApp = \<lparr>app_name = ''Demo'', app_version = Some ''1.0'', hwid_lock_enabled = Some 0,
     webhook_url = None, app_owner_id = Some 1\<rparr>"

definition freshLicense :: license where
  "freshLicense = \<lparr>app_id = ''app'', duration_value = Some 30, duration_unit = Some ''days'',
     is_unlimited = 0, expires_at = None, is_active = 1, locked_hwid = None, is_banned = 0,
     is_paused = 0, paused_at = None, paused_expires_at = None, created_by = Some 1\<rparr>"

definition storeOf :: "application \<Rightarrow> license \<Rightarrow> db" where
  "storeOf a l = \<lparr>licenses = [''KEY'' \<mapsto> l], applications = [''app'' \<mapsto> a],
     license_usage = Map.empty\<rparr>"

definition admin :: caller where
  "admin = \<lparr>userId = Some 1, permissionsErr = False, isAdmin = True, mayPause = True,
     mayExtend = True\<rparr>"

definition noErrors :: store_errors where
  "noErrors = \<lparr>selectErr = False, updateErr = False\<rparr>"

definition zeroBytes :: "nat \<Rightarrow> 8 word" where
  "zeroBytes i = 0"

definition prefixConfig :: license_format_config where
  "prefixConfig = \<lparr>format = ''VARP-**'',
     options = Some \<lparr>bigLetters = False, digits = True, specialChars = False\<rparr>\<rparr>"

text \<open>A clock that reads \<open>t\<close> at every reading.\<close>

definition fixedClock :: "instant \<Rightarrow> nat \<Rightarrow> instant" where
  "fixedClock t i = t"

text \<open>
  Two zones: UTC, and a zone that is four hours behind UTC until 5 November 2023, 06:00 UTC
  (02:00 local time), and five hours behind from then on, as the east of North America is
  when daylight saving time ends.
\<close>

definition utcZone :: time_zone where
  "utcZone = \<lparr>offsetAtUTC = (\<lambda>t. 0), offsetAtLocal = (\<lambda>t. 0)\<rparr>"


section \<open>Properties\<close>

subsection \<open>Date arithmetic\<close>

lemma time_fields:
  "Day t * msPerDay + MakeTime (HourFromTime t) (MinFromTime t) (SecFromTime t) (msFromTime t) = t"
proof -
  define s where "s = t div 1000"
  define m where "m = s div 60"
  define h where "h = m div 60"
  have m_eq: "t div 60000 = m"
    using zdiv_zmult2_eq [of 60 t 1000] by (simp add: m_def s_def)
  have h_eq: "t div 3600000 = h"
    using zdiv_zmult2_eq [of 60 t 60000] m_eq by (simp add: h_def)
  have d_eq: "t div 86400000 = h div 24"
    using zdiv_zmult2_eq [of 24 t 3600000] h_eq by simp
  have a: "t = s * 1000 + t mod 1000"
    by (simp add: s_def)
  have b: "s = m * 60 + s mod 60"
    by (simp add: m_def)
  have c: "m = h * 60 + m mod 60"
    by (simp add: h_def)
  have d: "h = (h div 24) * 24 + h mod 24"
    by simp
  have "(h div 24) * 86400000 + (h mod 24 * 3600000 + m mod 60 * 60000 + s mod 60 * 1000 + t mod 1000) = t"
    using a b c d by linarith
  then show ?thesis
    by (simp add: Day_def MakeTime_def HourFromTime_def MinFromTime_def SecFromTime_def
        msFromTime_def msPerDay_def msPerHour_def msPerMinute_def msPerSecond_def
        m_eq h_eq d_eq s_def [symmetric])
qed

text \<open>
  A setter that is given its own field plus \<open>v\<close> moves the local time by \<open>v\<close> units; the
  result is converted back to UTC with the offset that applies to the new local time, and
  clipped.
\<close>

lemma setSeconds_add:
  "setSeconds z t (getSeconds z t + v) = TimeClip (UTC z (LocalTime z t + v * msPerSecond))"
proof -
  have "MakeDate (Day (LocalTime z t))
          (MakeTime (HourFromTime (LocalTime z t)) (MinFromTime (LocalTime z t))
             (SecFromTime (LocalTime z t) + v) (msFromTime (LocalTime z t))) =
      Day (LocalTime z t) * msPerDay
        + MakeTime (HourFromTime (LocalTime z t)) (MinFromTime (LocalTime z t))
            (SecFromTime (LocalTime z t)) (msFromTime (LocalTime z t))
        + v * msPerSecond"
    by (simp add: MakeDate_def MakeTime_def algebra_simps)
  then show ?thesis
    by (simp only: setSeconds_def getSeconds_def Let_def time_fields)
qed

lemma setMinutes_add:
  "setMinutes z t (getMinutes z t + v) = TimeClip (UTC z (LocalTime z t + v * msPerMinute))"
proof -
  have "MakeDate (Day (LocalTime z t))
          (MakeTime (HourFromTime (LocalTime z t)) (MinFromTime (LocalTime z t) + v)
             (SecFromTime (LocalTime z t)) (msFromTime (LocalTime z t))) =
      Day (LocalTime z t) * msPerDay
        + MakeTime (HourFromTime (LocalTime z t)) (MinFromTime (LocalTime z t))
            (SecFromTime (LocalTime z t)) (msFromTime (LocalTime z t))
        + v * msPerMinute"
    by (simp add: MakeDate_def MakeTime_def algebra_simps)
  then show ?thesis
    by (simp only: setMinutes_def getMinutes_def Let_def time_fields)
qed

lemma setHours_add:
  "setHours z t (getHours z t + v) = TimeClip (UTC z (LocalTime z t + v * msPerHour))"
proof -
  have "MakeDate (Day (LocalTime z t))
          (MakeTime (HourFromTime (LocalTime z t) + v) (MinFromTime (LocalTime z t))
             (SecFromTime (LocalTime z t)) (msFromTime (LocalTime z t))) =
      Day (LocalTime z t) * msPerDay
        + MakeTime (HourFromTime (LocalTime z t)) (MinFromTime (LocalTime z t))
            (SecFromTime (LocalTime z t)) (msFromTime (LocalTime z t))
        + v * msPerHour"
    by (simp add: MakeDate_def MakeTime_def algebra_simps)
  then show ?thesis
    by (simp only: setHours_def getHours_def Let_def time_fields)
qed

lemma MonthFromTime_range: "0 \<le> MonthFromTime t \<and> MonthFromTime t \<le> 11"
  by (simp add: MonthFromTime_def Let_def)

lemma MakeDay_current_month:
  "MakeDay (YearFromTime t) (MonthFromTime t) date = Day t - DateFromTime t + date"
proof -
  have "MonthFromTime t div 12 = 0" and "MonthFromTime t mod 12 = MonthFromTime t"
    using MonthFromTime_range [of t] by simp_all
  then show ?thesis
    by (simp add: MakeDay_def DateFromTime_def DayWithinYear_def InLeapYear_def Let_def)
qed

lemma setDate_add:
  "setDate z t (getDate z t + v) = TimeClip (UTC z (LocalTime z t + v * msPerDay))"
proof -
  have "MakeDate (MakeDay (YearFromTime (LocalTime z t)) (MonthFromTime (LocalTime z t))
            (DateFromTime (LocalTime z t) + v)) (TimeWithinDay (LocalTime z t))
      = (Day (LocalTime z t) + v) * msPerDay + TimeWithinDay (LocalTime z t)"
    by (simp add: MakeDate_def MakeDay_current_month)
  also have "\<dots> = (Day (LocalTime z t) * msPerDay + TimeWithinDay (LocalTime z t)) + v * msPerDay"
    by (simp add: algebra_simps)
  also have "Day (LocalTime z t) * msPerDay + TimeWithinDay (LocalTime z t) = LocalTime z t"
    by (simp add: Day_def TimeWithinDay_def)
  finally show ?thesis
    by (simp only: setDate_def getDate_def Let_def)
qed

text \<open>
  The year of a time value is the one whose first day is the last not after it, and the
  calendar agrees with known dates: 14 November 2023, 29 February 2000, 31 December 1969.
\<close>

lemma YearFromTime_bounds:
  "DayFromYear (YearFromTime t) \<le> Day t \<and> Day t < DayFromYear (YearFromTime t + 1)"
proof -
  define d where "d = Day t"
  define k where "k = (d * 400) div 146097"
  define r where "r = (d * 400) mod 146097"
  have quot: "d * 400 = 146097 * k + r"
    by (simp add: k_def r_def)
  have rem: "0 \<le> r" "r < 146097"
    by (simp_all add: r_def)
  have k1: "146097 * k \<le> 400 * d"
    using quot rem by linarith
  have k2: "400 * d < 146097 * k + 146097"
    using quot rem by linarith
  have divs: "4 * (x div 4) \<le> x \<and> x - 3 \<le> 4 * (x div 4)
      \<and> 100 * (x div 100) \<le> x \<and> x - 99 \<le> 100 * (x div 100)
      \<and> 400 * (x div 400) \<le> x \<and> x - 399 \<le> 400 * (x div 400)" for x :: int
  proof -
    have "x = 4 * (x div 4) + x mod 4" "x = 100 * (x div 100) + x mod 100"
      "x = 400 * (x div 400) + x mod 400"
      by simp_all
    moreover have "0 \<le> x mod 4" "x mod 4 < 4" "0 \<le> x mod 100" "x mod 100 < 100"
      "0 \<le> x mod 400" "x mod 400 < 400"
      by simp_all
    ultimately show ?thesis
      by linarith
  qed
  have low: "DayFromYear (1970 + k - 1) \<le> d"
    using k1 divs [of k] divs [of "k + 68"] divs [of "k + 368"]
    by (simp add: DayFromYear_def algebra_simps)
  have high: "d < DayFromYear (1970 + k + 2)"
    using k2 divs [of "k + 3"] divs [of "k + 71"] divs [of "k + 371"]
    by (simp add: DayFromYear_def algebra_simps)
  show ?thesis
    using low high
    by (simp add: YearFromTime_def Let_def d_def [symmetric] k_def [symmetric] add.commute)
qed

lemma calendar_examples:
  "YearFromTime 1700000000000 = 2023 \<and> MonthFromTime 1700000000000 = 10
     \<and> DateFromTime 1700000000000 = 14 \<and>
   YearFromTime 951782400000 = 2000 \<and> MonthFromTime 951782400000 = 1
     \<and> DateFromTime 951782400000 = 29 \<and>
   YearFromTime (-1) = 1969 \<and> MonthFromTime (-1) = 11 \<and> DateFromTime (-1) = 31"
  by code_simp

text \<open>
  The calculator moves the local time of \<open>now\<close> by the duration; where the addition is
  plain, the result is \<open>now\<close> plus the duration.
\<close>

lemma calculateExpirationDate_value:
  "calculateExpirationDate z now v u False
     = Some (TimeClip (UTC z (LocalTime z now + durationMs v u)))"
  by (simp add: calculateExpirationDate_def durationMs_def setSeconds_add setMinutes_add
      setHours_add setDate_add msPerSecond_def msPerMinute_def msPerHour_def msPerDay_def)

lemma plainAddition_value:
  "plainAddition z now delta \<Longrightarrow> TimeClip (UTC z (LocalTime z now + delta)) = ValidDate (now + delta)"
  by (simp add: plainAddition_def TimeClip_def UTC_def LocalTime_def)


subsection \<open>Expiration calculator\<close>




subsection \<open>Key generator\<close>

declare keyLoop.simps [simp del]

text \<open>The loop appends one character for each position of the template from \<open>i\<close> on.\<close>

lemma keyLoop_map:
  "keyLoop fmt chars bytes i acc =
     acc @ map (\<lambda>j. if fmt ! j = CHR ''*'' then chars ! (unat (bytes ! j) mod length chars) else fmt ! j)
             [i..<length fmt]"
proof (induction fmt chars bytes i acc rule: keyLoop.induct)
  case (1 fmt chars bytes i licenseKey)
  show ?case
  proof (cases "i < length fmt")
    case True
    then have upt: "[i..<length fmt] = i # [Suc i..<length fmt]"
      by (simp add: upt_conv_Cons)
    show ?thesis
    proof (cases "fmt ! i = CHR ''*''")
      case star: True
      show ?thesis
        using True star "1.IH"(1) [OF True star refl]
        by (subst keyLoop.simps) (simp add: upt Let_def)
    next
      case lit: False
      show ?thesis
        using True lit "1.IH"(2) [OF True lit]
        by (subst keyLoop.simps) (simp add: upt)
    qed
  next
    case False
    then show ?thesis
      by (subst keyLoop.simps) simp
  qed
qed

lemma templateOf_stored: "format cfg \<noteq> [] \<Longrightarrow> templateOf (Some cfg) = format cfg"
  by (simp add: templateOf_def)

lemma optionsOf_stored: "options cfg = Some opts \<Longrightarrow> optionsOf (Some cfg) = opts"
  by (simp add: optionsOf_def)

text \<open>
  Claim C9. For every template string and every setting of the character-class options,
  the generated key has the length of the template, every position of the template that is
  not the wildcard \<^verbatim>\<open>*\<close> is copied to the same position of the key, and every wildcard
  position holds a character of the set made of the lowercase letters (always) and of the
  uppercase letters, the digits and the special characters exactly when the corresponding
  toggle is enabled. The template and the options are those the generator works on
  (\<open>templateOf\<close>, \<open>optionsOf\<close>): the stored ones for every row that the configuration
  endpoint can store, whose template is not empty.
\<close>

theorem generateLicenseKey_follows_template:
  "length (generateLicenseKey random False config) = length (templateOf config) \<and>
   (\<forall>i < length (templateOf config).
      (templateOf config ! i \<noteq> CHR ''*'' \<longrightarrow>
         generateLicenseKey random False config ! i = templateOf config ! i) \<and>
      (templateOf config ! i = CHR ''*'' \<longrightarrow>
         generateLicenseKey random False config ! i \<in>
           set ''abcdefghijklmnopqrstuvwxyz''
           \<union> (if bigLetters (optionsOf config) then set ''ABCDEFGHIJKLMNOPQRSTUVWXYZ'' else {})
           \<union> (if digits (optionsOf config) then set ''0123456789'' else {})
           \<union> (if specialChars (optionsOf config) then set ''!@#$%^&*'' else {}))) \<and>
   (\<forall>cfg opts. config = Some cfg \<and> format cfg \<noteq> [] \<and> options cfg = Some opts \<longrightarrow>
      templateOf config = format cfg \<and> optionsOf config = opts)"
proof -
  define chars where "chars =
    ''abcdefghijklmnopqrstuvwxyz''
      @ (if bigLetters (optionsOf config) then ''ABCDEFGHIJKLMNOPQRSTUVWXYZ'' else [])
      @ (if digits (optionsOf config) then ''0123456789'' else [])
      @ (if specialChars (optionsOf config) then ''!@#$%^&*'' else [])"
  have key: "generateLicenseKey random False config =
      map (\<lambda>j. if templateOf config ! j = CHR ''*''
                then chars ! (unat (random j) mod length chars)
                else templateOf config ! j)
        [0..<length (templateOf config)]"
    by (simp add: generateLicenseKey_def keyLoop_map randomBytes_def Let_def chars_def)
  have "chars \<noteq> []"
    by (simp add: chars_def)
  then have mem: "chars ! (n mod length chars) \<in> set chars" for n
    by simp
  have sets: "set chars =
      set ''abcdefghijklmnopqrstuvwxyz''
      \<union> (if bigLetters (optionsOf config) then set ''ABCDEFGHIJKLMNOPQRSTUVWXYZ'' else {})
      \<union> (if digits (optionsOf config) then set ''0123456789'' else {})
      \<union> (if specialChars (optionsOf config) then set ''!@#$%^&*'' else {})"
    unfolding chars_def set_append by (simp only: if_distrib [of set] list.set(1) Un_assoc)
  have shape: "length (generateLicenseKey random False config) = length (templateOf config) \<and>
   (\<forall>i < length (templateOf config).
      (templateOf config ! i \<noteq> CHR ''*'' \<longrightarrow>
         generateLicenseKey random False config ! i = templateOf config ! i) \<and>
      (templateOf config ! i = CHR ''*'' \<longrightarrow>
         generateLicenseKey random False config ! i \<in> set chars))"
    unfolding key using mem by simp
  have stored: "\<forall>cfg opts. config = Some cfg \<and> format cfg \<noteq> [] \<and> options cfg = Some opts \<longrightarrow>
      templateOf config = format cfg \<and> optionsOf config = opts"
    by (auto simp: templateOf_stored optionsOf_stored)
  show ?thesis
    using shape stored unfolding sets by blast
qed

theorem generateLicenseKey_follows_template_witness:
  "templateOf (Some prefixConfig) = ''VARP-**'' \<and>
   length (generateLicenseKey zeroBytes False (Some prefixConfig)) = 7 \<and>
   generateLicenseKey zeroBytes False (Some prefixConfig) ! 4 = CHR ''-'' \<and>
   generateLicenseKey zeroBytes False (Some prefixConfig) ! 5
     \<in> set ''abcdefghijklmnopqrstuvwxyz'' \<union> set ''0123456789''"
proof -
  have tmpl: "templateOf (Some prefixConfig) = ''VARP-**''"
    by (simp add: templateOf_def prefixConfig_def)
  have opts: "optionsOf (Some prefixConfig)
      = \<lparr>bigLetters = False, digits = True, specialChars = False\<rparr>"
    by (simp add: optionsOf_def prefixConfig_def)
  note t = generateLicenseKey_follows_template [of zeroBytes "Some prefixConfig"]
  have len: "length (generateLicenseKey zeroBytes False (Some prefixConfig)) = 7"
    using t by (simp add: tmpl)
  have lit: "generateLicenseKey zeroBytes False (Some prefixConfig) ! 4 = CHR ''-''"
    using t [THEN conjunct2, THEN conjunct1, rule_format, of 4] by (simp add: tmpl)
  have pos: "5 < length (templateOf (Some prefixConfig))"
    by (simp add: tmpl)
  have star: "templateOf (Some prefixConfig) ! 5 = CHR ''*''"
    by (simp add: tmpl)
  have wild: "generateLicenseKey zeroBytes False (Some prefixConfig) ! 5
      \<in> set ''abcdefghijklmnopqrstuvwxyz'' \<union> set ''0123456789''"
    using t [THEN conjunct2, THEN conjunct1, rule_format, OF pos, THEN conjunct2, rule_format,
        OF star]
    by (simp only: opts format_options.select_convs if_True if_False Un_empty_right)
  show ?thesis
    using tmpl len lit wild by (simp only: simp_thms)
qed

subsection \<open>Validation endpoint\<close>

lemma findLicense_SomeD:
  assumes "findLicense d key aid = Some (l, a)"
  shows "licenses d key = Some l" and "app_id l = aid" and "is_active l = 1"
    and "applications d aid = Some a"
  using assms by (auto simp: findLicense_def split: option.splits if_splits)

lemma findLicense_storeOf:
  "app_id l = ''app'' \<Longrightarrow> is_active l = 1 \<Longrightarrow>
   findLicense (storeOf a l) ''KEY'' ''app'' = Some (l, a)"
  by (simp add: findLicense_def storeOf_def)


lemma notYetActivated_Some:
  "is_unlimited l = 0 \<Longrightarrow> expires_at l = None \<Longrightarrow> duration_value l = Some v \<Longrightarrow> v \<noteq> 0 \<Longrightarrow>
   duration_unit l = Some u \<Longrightarrow> u \<noteq> [] \<Longrightarrow> notYetActivated l = Some (v, u)"
  by (simp add: notYetActivated_def)

lemma hwidLockActivated_Inl:
  "hwidLockActivated d key l a hwid = Inl r \<Longrightarrow> r = HwidMismatch"
  by (auto simp: hwidLockActivated_def split: if_splits)

text \<open>
  Claim C1, as stated for every request whose license row is found, fails where the request
  names a version other than the one the application requires: the version gate comes
  before the ban test, and a banned and expired license is then answered with the
  version mismatch. Here the license \<^verbatim>\<open>KEY\<close> is banned and expired since 1000, the
  application requires \<^verbatim>\<open>1.0\<close>, and the request at 2000 names \<^verbatim>\<open>2.0\<close>.
\<close>

theorem check_banned_expired_counterexample:
  "findLicense (storeOf lockedApp (freshLicense\<lparr>is_banned := 1, expires_at := Some 1000\<rparr>))
      ''KEY'' ''app''
     = Some (freshLicense\<lparr>is_banned := 1, expires_at := Some 1000\<rparr>, lockedApp) \<and>
   snd (checkLicense utcZone
          (storeOf lockedApp (freshLicense\<lparr>is_banned := 1, expires_at := Some 1000\<rparr>))
          (fixedClock 2000) False (Some ''app'') (Some ''KEY'') (Some ''H1'') (Some ''2.0''))
     = Rejected VersionMismatch"
  by (simp add: checkLicense_def findLicense_def storeOf_def freshLicense_def lockedApp_def
      truthy_def)

text \<open>
  Claim C1, amended. For every check request whose license row is found and is both banned
  (\<^verbatim>\<open>is_banned = 1\<close>) and expired (\<^verbatim>\<open>expires_at\<close> in the past), the answer is never the
  rejection \<^verbatim>\<open>expired\<close>: it is the rejection \<^verbatim>\<open>banned\<close> when the request passes the version
  gate, and the rejection \<^verbatim>\<open>version-mismatch\<close> otherwise. The ban test is evaluated and
  ends the request before the expiry comparison.
\<close>

theorem check_banned_before_expired:
  assumes "aid \<noteq> []" and "key \<noteq> []" and "findLicense d key aid = Some (l, a)"
    and "is_banned l = 1" and "expires_at l = Some e" and "e < clock 0"
  shows "snd (checkLicense z d clock False (Some aid) (Some key) hwid appVersion)
      \<noteq> Rejected LicenseExpired \<and>
    (versionAccepted a appVersion \<longrightarrow>
       checkLicense z d clock False (Some aid) (Some key) hwid appVersion
         = (d, Rejected LicenseBanned)) \<and>
    (\<not> versionAccepted a appVersion \<longrightarrow>
       checkLicense z d clock False (Some aid) (Some key) hwid appVersion
         = (d, Rejected VersionMismatch))"
  using assms by (simp add: checkLicense_def versionAccepted_def)

theorem check_banned_before_expired_witness:
  "is_banned (freshLicense\<lparr>is_banned := 1, expires_at := Some 1000\<rparr>) = 1 \<and>
   expires_at (freshLicense\<lparr>is_banned := 1, expires_at := Some 1000\<rparr>) = Some 1000 \<and>
   1000 < fixedClock 2000 0 \<and>
   checkLicense utcZone
      (storeOf lockedApp (freshLicense\<lparr>is_banned := 1, expires_at := Some 1000\<rparr>))
      (fixedClock 2000) False (Some ''app'') (Some ''KEY'') (Some ''H1'') (Some ''1.0'')
    = (storeOf lockedApp (freshLicense\<lparr>is_banned := 1, expires_at := Some 1000\<rparr>),
       Rejected LicenseBanned)"
proof -
  let ?l = "freshLicense\<lparr>is_banned := 1, expires_at := Some 1000\<rparr>"
  have found: "findLicense (storeOf lockedApp ?l) ''KEY'' ''app'' = Some (?l, lockedApp)"
    by (simp add: findLicense_storeOf freshLicense_def)
  have ok: "versionAccepted lockedApp (Some ''1.0'')"
    by (simp add: versionAccepted_def lockedApp_def)
  have past: "1000 < fixedClock 2000 0"
    by (simp add: fixedClock_def)
  show ?thesis
    using check_banned_before_expired
      [where clock = "fixedClock 2000" and e = 1000 and z = utcZone and hwid = "Some ''H1''"
         and appVersion = "Some ''1.0''", OF _ _ found _ _ past] ok past
    by simp
qed

text \<open>
  Claim C6, as stated for every such license, fails for one that is also banned: the ban
  test comes before the hardware-lock policy, and the answer is the rejection \<^verbatim>\<open>banned\<close>.
  Here the license has never been activated, the application locks hardware, and the
  request names no hwid.
\<close>

theorem check_hwid_required_counterexample:
  "findLicense (storeOf lockedApp (freshLicense\<lparr>is_banned := 1\<rparr>)) ''KEY'' ''app''
     = Some (freshLicense\<lparr>is_banned := 1\<rparr>, lockedApp) \<and>
   checkLicense utcZone (storeOf lockedApp (freshLicense\<lparr>is_banned := 1\<rparr>)) (fixedClock 2000)
      False (Some ''app'') (Some ''KEY'') None None
     = (storeOf lockedApp (freshLicense\<lparr>is_banned := 1\<rparr>), Rejected LicenseBanned)"
  by (simp add: checkLicense_def findLicense_def storeOf_def freshLicense_def lockedApp_def
      truthy_def)

text \<open>
  Claim C6, amended. For every check of a license that has not been activated and has a
  duration (value not zero, unit not empty), on an application with hardware lock, with a
  missing, empty or blank hwid: the check writes nothing, so \<^verbatim>\<open>expires_at\<close> and
  \<^verbatim>\<open>locked_hwid\<close> stay as they are and the license stays unactivated; and when the request
  passes the version gate and the license is neither banned nor paused, the answer is the
  rejection \<^verbatim>\<open>hwid-required\<close>.
\<close>

theorem check_hwid_required_no_write:
  assumes "aid \<noteq> []" and "key \<noteq> []" and "findLicense d key aid = Some (l, a)"
    and "is_unlimited l = 0" and "expires_at l = None"
    and "duration_value l = Some v" and "v \<noteq> 0" and "duration_unit l = Some u" and "u \<noteq> []"
    and "hwidLockEnabled a" and "hwidMissing hwid"
  shows "fst (checkLicense z d clock False (Some aid) (Some key) hwid appVersion) = d \<and>
    (versionAccepted a appVersion \<and> is_banned l \<noteq> 1 \<and> is_paused l \<noteq> 1 \<longrightarrow>
       checkLicense z d clock False (Some aid) (Some key) hwid appVersion
         = (d, Rejected HwidRequired))"
proof -
  have nya: "notYetActivated l = Some (v, u)"
    using assms by (simp add: notYetActivated_Some)
  have act: "is_active l \<noteq> 0"
    using findLicense_SomeD(3) [OF assms(3)] by simp
  show ?thesis
    using assms(1-3,10,11) nya act by (simp add: checkLicense_def versionAccepted_def)
qed

theorem check_hwid_required_no_write_witness:
  "hwidLockEnabled lockedApp \<and> hwidMissing (Some []) \<and>
   checkLicense utcZone (storeOf lockedApp freshLicense) (fixedClock 2000) False
      (Some ''app'') (Some ''KEY'') (Some []) (Some ''1.0'')
     = (storeOf lockedApp freshLicense, Rejected HwidRequired)"
proof -
  have found: "findLicense (storeOf lockedApp freshLicense) ''KEY'' ''app''
      = Some (freshLicense, lockedApp)"
    by (simp add: findLicense_storeOf freshLicense_def)
  have lock: "hwidLockEnabled lockedApp"
    by (simp add: hwidLockEnabled_def lockedApp_def)
  have miss: "hwidMissing (Some [])"
    by (simp add: hwidMissing_def)
  have ok: "versionAccepted lockedApp (Some ''1.0'')"
    by (simp add: versionAccepted_def lockedApp_def)
  show ?thesis
    using check_hwid_required_no_write
      [where clock = "fixedClock 2000" and z = utcZone and v = 30 and u = "''days''"
         and appVersion = "Some ''1.0''", OF _ _ found _ _ _ _ _ _ lock miss] ok lock miss
    by (simp add: freshLicense_def)
qed




text \<open>
  Claim C10. For every check of an activated license (\<^verbatim>\<open>expires_at\<close> set) that is
  neither banned nor paused, the writes of the hardware-lock policy to \<^verbatim>\<open>locked_hwid\<close>
  come before the expiry comparison: when the check is rejected with \<^verbatim>\<open>expired\<close>, the
  store is the one that the hardware-lock block produced. The provided hwid has been bound
  when hardware lock is enabled and none was locked; \<^verbatim>\<open>locked_hwid\<close> has been cleared
  when hardware lock is disabled; and only the usage upsert has been skipped: the usage
  table is as before.
\<close>

theorem check_expired_keeps_hwid_writes:
  assumes "aid \<noteq> []" and "key \<noteq> []" and "findLicense d key aid = Some (l, a)"
    and "expires_at l = Some e" and "is_banned l \<noteq> 1" and "is_paused l \<noteq> 1"
    and "checkLicense z d clock err (Some aid) (Some key) hwid appVersion
           = (d', Rejected LicenseExpired)"
  shows "hwidLockActivated d key l a hwid = Inr d' \<and>
    (hwidLockEnabled a \<and> \<not> truthy (locked_hwid l) \<and> truthy hwid \<longrightarrow>
       licenses d' key = Some (l\<lparr>locked_hwid := hwid\<rparr>)) \<and>
    (\<not> hwidLockEnabled a \<and> truthy (locked_hwid l) \<longrightarrow>
       licenses d' key = Some (l\<lparr>locked_hwid := None\<rparr>)) \<and>
    license_usage d' = license_usage d \<and> applications d' = applications d \<and> e < clock 0"
proof -
  have row: "licenses d key = Some l"
    using findLicense_SomeD(1) [OF assms(3)] .
  have nya: "notYetActivated l = None"
    using assms(4) by (simp add: notYetActivated_def split: option.splits)
  have pol: "hwidLockActivated d key l a hwid = Inr d'" and late: "e < clock 0"
    using assms(1-4,7) nya
    by (auto simp: checkLicense_def acceptCheck_def Let_def split: if_splits sum.splits
        dest: hwidLockActivated_Inl)
  show ?thesis
    using pol late row
    by (auto simp: hwidLockActivated_def updateLicense_def split: if_splits)
qed

lemma check_expired_binds_eval:
  "checkLicense utcZone (storeOf lockedApp (freshLicense\<lparr>expires_at := Some 1000\<rparr>))
      (fixedClock 2000) False (Some ''app'') (Some ''KEY'') (Some ''H1'') None
     = (storeOf lockedApp (freshLicense\<lparr>expires_at := Some 1000, locked_hwid := Some ''H1''\<rparr>),
        Rejected LicenseExpired)"
  by (simp add: checkLicense_def findLicense_def storeOf_def freshLicense_def lockedApp_def
      truthy_def notYetActivated_def hwidLockEnabled_def hwidLockActivated_def
      updateLicense_def fixedClock_def)

lemma check_expired_clears_eval:
  "checkLicense utcZone
      (storeOf openApp (freshLicense\<lparr>expires_at := Some 1000, locked_hwid := Some ''H0''\<rparr>))
      (fixedClock 2000) False (Some ''app'') (Some ''KEY'') (Some ''H1'') None
     = (storeOf openApp (freshLicense\<lparr>expires_at := Some 1000, locked_hwid := None\<rparr>),
        Rejected LicenseExpired)"
  by (simp add: checkLicense_def findLicense_def storeOf_def freshLicense_def openApp_def
      truthy_def notYetActivated_def hwidLockEnabled_def hwidLockActivated_def
      updateLicense_def fixedClock_def)

theorem check_expired_keeps_hwid_writes_witness:
  "checkLicense utcZone (storeOf lockedApp (freshLicense\<lparr>expires_at := Some 1000\<rparr>))
      (fixedClock 2000) False (Some ''app'') (Some ''KEY'') (Some ''H1'') None
     = (storeOf lockedApp (freshLicense\<lparr>expires_at := Some 1000, locked_hwid := Some ''H1''\<rparr>),
        Rejected LicenseExpired) \<and>
   checkLicense utcZone
      (storeOf openApp (freshLicense\<lparr>expires_at := Some 1000, locked_hwid := Some ''H0''\<rparr>))
      (fixedClock 2000) False (Some ''app'') (Some ''KEY'') (Some ''H1'') None
     = (storeOf openApp (freshLicense\<lparr>expires_at := Some 1000, locked_hwid := None\<rparr>),
        Rejected LicenseExpired) \<and>
   licenses (storeOf lockedApp (freshLicense\<lparr>expires_at := Some 1000, locked_hwid := Some ''H1''\<rparr>))
      ''KEY''
     = Some (freshLicense\<lparr>expires_at := Some 1000, locked_hwid := Some ''H1''\<rparr>) \<and>
   license_usage
      (storeOf lockedApp (freshLicense\<lparr>expires_at := Some 1000, locked_hwid := Some ''H1''\<rparr>))
     = license_usage (storeOf lockedApp (freshLicense\<lparr>expires_at := Some 1000\<rparr>)) \<and>
   licenses (storeOf openApp (freshLicense\<lparr>expires_at := Some 1000, locked_hwid := None\<rparr>)) ''KEY''
     = Some (freshLicense\<lparr>expires_at := Some 1000, locked_hwid := None\<rparr>) \<and>
   1000 < fixedClock 2000 0"
proof -
  let ?l1 = "freshLicense\<lparr>expires_at := Some 1000\<rparr>"
  let ?l2 = "freshLicense\<lparr>expires_at := Some 1000, locked_hwid := Some ''H0''\<rparr>"
  have found1: "findLicense (storeOf lockedApp ?l1) ''KEY'' ''app'' = Some (?l1, lockedApp)"
    by (simp add: findLicense_storeOf freshLicense_def)
  have found2: "findLicense (storeOf openApp ?l2) ''KEY'' ''app'' = Some (?l2, openApp)"
    by (simp add: findLicense_storeOf freshLicense_def)
  have lock: "hwidLockEnabled lockedApp" and nolock: "\<not> hwidLockEnabled openApp"
    by (simp_all add: hwidLockEnabled_def lockedApp_def openApp_def)
  note bind = check_expired_keeps_hwid_writes
      [where e = 1000, OF _ _ found1 _ _ _ check_expired_binds_eval]
  note clear = check_expired_keeps_hwid_writes
      [where e = 1000, OF _ _ found2 _ _ _ check_expired_clears_eval]
  show ?thesis
    using bind clear lock nolock check_expired_binds_eval check_expired_clears_eval
    by (simp add: freshLicense_def truthy_def)
qed

subsection \<open>Pause and resume\<close>

lemma selectLicense_SomeD:
  "selectLicense d adm uid key = Some l \<Longrightarrow> licenses d key = Some l"
  by (auto simp: selectLicense_def split: option.splits if_splits)

lemma selectLicense_row:
  "licenses d key = Some l \<Longrightarrow>
   selectLicense d adm uid key = (if adm \<or> created_by l = Some uid then Some l else None)"
  by (simp add: selectLicense_def)

lemma updateSelected_changed:
  "updateSelected d adm uid key f = (d', changes) \<Longrightarrow> changes \<noteq> 0 \<Longrightarrow>
   licenses d key = Some l \<Longrightarrow> d' = d\<lparr>licenses := (licenses d)(key \<mapsto> f l)\<rparr>"
  by (auto simp: updateSelected_def selectLicense_def split: option.splits if_splits)

text \<open>What a successful pause and a successful resume write.\<close>

lemma pauseLicense_Success:
  assumes "pauseLicense c errs d now key = (d', Success x)" and "licenses d key = Some l"
  shows "d' = d\<lparr>licenses := (licenses d)(key \<mapsto>
            l\<lparr>is_paused := 1, paused_at := Some now, paused_expires_at := expires_at l\<rparr>)\<rparr>"
  using assms
  by (auto simp: pauseLicense_def split: option.splits if_splits prod.splits
      dest!: selectLicense_SomeD updateSelected_changed)

lemma unpauseLicense_Success:
  assumes "unpauseLicense c errs d clock key = (d', Success x)" and "licenses d key = Some l"
  shows "(paused_expires_at l = Some E \<and> paused_at l = Some P \<longrightarrow>
       d' = d\<lparr>licenses := (licenses d)(key \<mapsto>
              l\<lparr>is_paused := 0, paused_at := None, paused_expires_at := None,
                expires_at := Some (E + (clock 0 - P))\<rparr>)\<rparr>) \<and>
    (paused_expires_at l = None \<longrightarrow>
       d' = d\<lparr>licenses := (licenses d)(key \<mapsto>
              l\<lparr>is_paused := 0, paused_at := None, paused_expires_at := None,
                expires_at := expires_at l\<rparr>)\<rparr>)"
proof -
  from assms(1) obtain uid where uid: "userId c = Some uid"
    by (auto simp: unpauseLicense_def split: option.splits)
  from assms(1) uid have sel: "selectLicense d (isAdmin c) uid key = Some l"
    using assms(2)
    by (auto simp: unpauseLicense_def split: option.splits if_splits dest: selectLicense_SomeD)
  show ?thesis
    using assms(1) uid sel
    by (auto simp: unpauseLicense_def Let_def updateSelected_def TimeClip_def
        split: if_splits)
qed

text \<open>
  The rejections of the pause handler leave the store as it is: a license that is not
  active, is banned, or is not unlimited and has expired cannot be paused.
\<close>

lemma pauseLicense_rejects:
  assumes "licenses d key = Some l"
    and "is_active l \<noteq> 1 \<or> is_banned l = 1
         \<or> (is_unlimited l \<noteq> 1 \<and> expires_at l = Some e \<and> e \<le> now)"
  shows "fst (pauseLicense c errs d now key) = d \<and> isError (snd (pauseLicense c errs d now key))"
  using assms(2)
  by (auto simp: pauseLicense_def isError_def selectLicense_row [OF assms(1)]
      split: option.splits if_splits)

lemma pause_eval:
  "pauseLicense admin noErrors (storeOf lockedApp (freshLicense\<lparr>expires_at := Some 5000\<rparr>))
      1000 ''KEY''
     = (storeOf lockedApp (freshLicense\<lparr>expires_at := Some 5000, is_paused := 1,
          paused_at := Some 1000, paused_expires_at := Some 5000\<rparr>), Success None)"
  by (simp add: pauseLicense_def admin_def noErrors_def storeOf_def freshLicense_def
      selectLicense_def updateSelected_def)

lemma unpause_eval:
  "unpauseLicense admin noErrors
      (storeOf lockedApp (freshLicense\<lparr>expires_at := Some 5000, is_paused := 1,
         paused_at := Some 1000, paused_expires_at := Some 5000\<rparr>)) (fixedClock 3000) ''KEY''
     = (storeOf lockedApp (freshLicense\<lparr>expires_at := Some 7000\<rparr>), Success None)"
  by (simp add: unpauseLicense_def admin_def noErrors_def storeOf_def freshLicense_def
      selectLicense_def updateSelected_def TimeClip_def maxTime_def fixedClock_def)

lemma unpause_unactivated_eval:
  "unpauseLicense admin noErrors
      (storeOf lockedApp (freshLicense\<lparr>is_paused := 1, paused_at := Some 1000\<rparr>))
      (fixedClock 3000) ''KEY''
     = (storeOf lockedApp freshLicense, Success None)"
  by (simp add: unpauseLicense_def admin_def noErrors_def storeOf_def freshLicense_def
      selectLicense_def updateSelected_def)

text \<open>
  Claim C2. For every license paused at time \<open>P\<close> with the snapshot
  \<^verbatim>\<open>paused_expires_at\<close> = \<open>E\<close> (not null), a resume at time \<open>R\<close> (the reading \<open>clock 0\<close> of
  the handler) sets \<^verbatim>\<open>expires_at\<close> to exactly \<open>E + (R - P)\<close>. If \<^verbatim>\<open>paused_expires_at\<close> is
  null, the resume leaves \<^verbatim>\<open>expires_at\<close> at its current value (set or null). Hence a pause
  at \<open>P\<close> of a license that expires at \<open>E\<close>, followed by a resume at \<open>R\<close>, gives the license
  exactly the paused time \<open>R - P\<close> of additional validity.
\<close>

theorem unpause_adds_paused_duration:
  assumes "unpauseLicense c errs d clock key = (d', Success x)" and "licenses d key = Some l"
    and "R = clock 0"
  shows "(paused_expires_at l = Some E \<and> paused_at l = Some P \<longrightarrow>
       licenses d' key = Some (l\<lparr>is_paused := 0, paused_at := None, paused_expires_at := None,
                                  expires_at := Some (E + (R - P))\<rparr>)) \<and>
    (paused_expires_at l = None \<longrightarrow>
       licenses d' key = Some (l\<lparr>is_paused := 0, paused_at := None, paused_expires_at := None,
                                  expires_at := expires_at l\<rparr>)) \<and>
    (pauseLicense c0 errs0 d0 P key = (d, Success y) \<and> licenses d0 key = Some l0
        \<and> expires_at l0 = Some E \<longrightarrow>
       licenses d' key = Some (l0\<lparr>is_paused := 0, paused_at := None, paused_expires_at := None,
                                   expires_at := Some (E + (R - P))\<rparr>))"
proof -
  note u = unpauseLicense_Success [OF assms(1,2)]
  have a: "paused_expires_at l = Some E \<and> paused_at l = Some P \<longrightarrow>
       licenses d' key = Some (l\<lparr>is_paused := 0, paused_at := None, paused_expires_at := None,
                                  expires_at := Some (E + (R - P))\<rparr>)"
    using u [of E P] assms(3) by simp
  have b: "paused_expires_at l = None \<longrightarrow>
       licenses d' key = Some (l\<lparr>is_paused := 0, paused_at := None, paused_expires_at := None,
                                  expires_at := expires_at l\<rparr>)"
    using u [of E P] by simp
  have c: "licenses d' key = Some (l0\<lparr>is_paused := 0, paused_at := None,
                                   paused_expires_at := None, expires_at := Some (E + (R - P))\<rparr>)"
    if p: "pauseLicense c0 errs0 d0 P key = (d, Success y)" and l0: "licenses d0 key = Some l0"
      and e: "expires_at l0 = Some E"
  proof -
    have "l = l0\<lparr>is_paused := 1, paused_at := Some P, paused_expires_at := expires_at l0\<rparr>"
      using pauseLicense_Success [OF p l0] assms(2) by simp
    then show ?thesis
      using u [of E P] e assms(3) by simp
  qed
  show ?thesis
    using a b c by blast
qed

theorem unpause_adds_paused_duration_witness:
  "unpauseLicense admin noErrors
      (storeOf lockedApp (freshLicense\<lparr>expires_at := Some 5000, is_paused := 1,
         paused_at := Some 1000, paused_expires_at := Some 5000\<rparr>)) (fixedClock 3000) ''KEY''
     = (storeOf lockedApp (freshLicense\<lparr>expires_at := Some 7000\<rparr>), Success None) \<and>
   licenses (storeOf lockedApp (freshLicense\<lparr>expires_at := Some 7000\<rparr>)) ''KEY''
     = Some (freshLicense\<lparr>expires_at := Some (5000 + (3000 - 1000))\<rparr>) \<and>
   unpauseLicense admin noErrors
      (storeOf lockedApp (freshLicense\<lparr>is_paused := 1, paused_at := Some 1000\<rparr>))
      (fixedClock 3000) ''KEY''
     = (storeOf lockedApp freshLicense, Success None) \<and>
   licenses (storeOf lockedApp freshLicense) ''KEY''
     = Some (freshLicense\<lparr>expires_at := None\<rparr>)"
proof -
  let ?paused = "freshLicense\<lparr>expires_at := Some 5000, is_paused := 1, paused_at := Some 1000,
     paused_expires_at := Some 5000\<rparr>"
  let ?pausedFresh = "freshLicense\<lparr>is_paused := 1, paused_at := Some 1000\<rparr>"
  have row0: "licenses (storeOf lockedApp (freshLicense\<lparr>expires_at := Some 5000\<rparr>)) ''KEY''
      = Some (freshLicense\<lparr>expires_at := Some 5000\<rparr>)"
    by (simp add: storeOf_def)
  have row1: "licenses (storeOf lockedApp ?paused) ''KEY'' = Some ?paused"
    by (simp add: storeOf_def)
  have row2: "licenses (storeOf lockedApp ?pausedFresh) ''KEY'' = Some ?pausedFresh"
    by (simp add: storeOf_def)
  have r: "(3000 :: int) = fixedClock 3000 0"
    by (simp add: fixedClock_def)
  note resumed = unpause_adds_paused_duration
      [OF unpause_eval row1 r, of 5000 1000 admin noErrors
         "storeOf lockedApp (freshLicense\<lparr>expires_at := Some 5000\<rparr>)" None
         "freshLicense\<lparr>expires_at := Some 5000\<rparr>"]
  note unactivated = unpause_adds_paused_duration [OF unpause_unactivated_eval row2 r]
  show ?thesis
    using resumed unactivated pause_eval row0 unpause_eval unpause_unactivated_eval
    by (simp add: freshLicense_def)
qed

text \<open>
  Claim C3 does not hold of the handler for a single license: it never reads
  \<^verbatim>\<open>is_paused\<close>, so a pause of a license that is already paused is answered with success
  and overwrites \<^verbatim>\<open>paused_at\<close>. Here the license was paused at 1000 and is paused again at
  2000; the record changes, and a resume at 3000 then restores 1000 ms instead of the 2000
  ms that the license was paused. The handlers that pause in bulk do filter on
  \<^verbatim>\<open>is_paused = 0\<close>.
\<close>

theorem pause_already_paused_accepted:
  "pauseLicense admin noErrors
     (storeOf lockedApp (freshLicense\<lparr>expires_at := Some 5000, is_paused := 1,
        paused_at := Some 1000, paused_expires_at := Some 5000\<rparr>)) 2000 ''KEY''
   = (storeOf lockedApp (freshLicense\<lparr>expires_at := Some 5000, is_paused := 1,
        paused_at := Some 2000, paused_expires_at := Some 5000\<rparr>), Success None) \<and>
   unpauseLicense admin noErrors
     (storeOf lockedApp (freshLicense\<lparr>expires_at := Some 5000, is_paused := 1,
        paused_at := Some 2000, paused_expires_at := Some 5000\<rparr>)) (fixedClock 3000) ''KEY''
   = (storeOf lockedApp (freshLicense\<lparr>expires_at := Some 6000\<rparr>), Success None)"
  by (simp add: pauseLicense_def unpauseLicense_def admin_def noErrors_def storeOf_def
      freshLicense_def selectLicense_def updateSelected_def TimeClip_def maxTime_def
      fixedClock_def)

subsection \<open>Extend\<close>

text \<open>
  On \<^verbatim>\<open>/api/licenses/extend\<close>, a successful extension by \<open>days\<close> of a license that has
  never been activated first activates it with its own duration and then adds the
  requested days, where both additions are plain; on the input of the evaluation below it
  gives 31 days.
\<close>

lemma extendLicense_unactivated:
  assumes "extendLicense c errs z d clock (Some key) (Some days) = (d', Success x)"
    and "licenses d key = Some l" and "expires_at l = None"
    and "duration_value l = Some v" and "duration_unit l = Some u"
    and "plainAddition z (clock 0) (durationMs v u)"
    and "plainAddition z (clock 0 + durationMs v u) (days * 86400000)"
  shows "x = Some ((clock 0 + durationMs v u) + days * 86400000) \<and>
    licenses d' key = Some (l\<lparr>expires_at := Some ((clock 0 + durationMs v u) + days * 86400000),
                              duration_value := Some (v + days)\<rparr>)"
proof -
  from assms(1) obtain uid where uid: "userId c = Some uid"
    by (auto simp: extendLicense_def split: option.splits)
  from assms(1,2) uid have sel: "selectLicense d False uid key = Some l"
    by (auto simp: extendLicense_def split: option.splits if_splits dest: selectLicense_SomeD)
  have calc: "calculateExpirationDate z (clock 0) v u False
      = Some (ValidDate (clock 0 + durationMs v u))"
    using assms(6) by (simp add: calculateExpirationDate_value plainAddition_value)
  have ext: "setDate z (clock 0 + durationMs v u) (getDate z (clock 0 + durationMs v u) + days)
      = ValidDate ((clock 0 + durationMs v u) + days * 86400000)"
    using assms(7) by (simp add: setDate_add plainAddition_value msPerDay_def)
  show ?thesis
    using assms(1-5) uid sel
    by (auto simp: extendLicense_def Let_def updateSelected_def calc ext split: if_splits)
qed

lemma extendLicense_unactivated_eval:
  "extendLicense admin noErrors utcZone (storeOf lockedApp freshLicense) (fixedClock 0)
      (Some ''KEY'') (Some 1)
     = (storeOf lockedApp (freshLicense\<lparr>expires_at := Some 2678400000,
          duration_value := Some 31\<rparr>), Success (Some 2678400000))"
  by (simp add: extendLicense_def admin_def noErrors_def storeOf_def freshLicense_def
      selectLicense_def updateSelected_def calculateExpirationDate_value setDate_add
      durationMs_def TimeClip_def UTC_def LocalTime_def utcZone_def maxTime_def fixedClock_def
      msPerDay_def)

text \<open>
  Claim C4 does not hold of \<^verbatim>\<open>/api/licenses/:licenseKey/extend\<close>: for a license that has
  never been activated, the handler sets \<^verbatim>\<open>expires_at\<close> to \<open>now\<close> plus the requested
  duration and drops the license's own duration. Here a license of 30 days is extended by
  1 day at time 0: the new \<^verbatim>\<open>expires_at\<close> is 86400000 (one day), where activation followed
  by the extension gives 2678400000 (31 days), which is what \<^verbatim>\<open>/api/licenses/extend\<close>
  computes.
\<close>

theorem extendLicenseByKey_unactivated_drops_duration:
  "extendLicenseByKey admin noErrors utcZone (storeOf lockedApp freshLicense) (fixedClock 0)
      ''KEY'' (Some 1) (Some ''days'')
     = (storeOf lockedApp (freshLicense\<lparr>expires_at := Some 86400000\<rparr>), Success None) \<and>
   (0 + durationMs 30 ''days'') + durationMs 1 ''days'' = 2678400000"
  by (simp add: extendLicenseByKey_def admin_def noErrors_def storeOf_def freshLicense_def
      selectLicense_def updateSelected_def calculateExpirationDate_value durationMs_def
      TimeClip_def UTC_def LocalTime_def utcZone_def maxTime_def fixedClock_def)

text \<open>
  Claim C5. For every extend request on an unlimited license (\<^verbatim>\<open>is_unlimited = 1\<close>) and
  for every extend request on a license whose \<^verbatim>\<open>expires_at\<close> is in the past, on either
  extend route, whoever the caller is and whatever the caller may do, the answer is an error
  and the store, hence \<^verbatim>\<open>expires_at\<close>, is not modified. \<open>now\<close> is the reading \<open>clock 0\<close>
  that both handlers compare such a license with.
\<close>

theorem extend_rejects_unlimited_and_expired:
  assumes "licenses d key = Some l"
    and "is_unlimited l = 1 \<or> (expires_at l = Some e \<and> e < now)"
    and "now = clock 0"
  shows "fst (extendLicense c errs z d clock (Some key) additionalDays) = d \<and>
    isError (snd (extendLicense c errs z d clock (Some key) additionalDays)) \<and>
    fst (extendLicenseByKey c errs z d clock key durationValue durationUnit) = d \<and>
    isError (snd (extendLicenseByKey c errs z d clock key durationValue durationUnit))"
proof -
  note sel = selectLicense_row [OF assms(1)]
  have a: "fst (extendLicense c errs z d clock (Some key) additionalDays) = d \<and>
    isError (snd (extendLicense c errs z d clock (Some key) additionalDays))"
    using assms(2,3)
    by (auto simp: extendLicense_def isError_def sel split: option.splits if_splits)
  have b: "fst (extendLicenseByKey c errs z d clock key durationValue durationUnit) = d \<and>
    isError (snd (extendLicenseByKey c errs z d clock key durationValue durationUnit))"
    using assms(2,3)
    by (auto simp: extendLicenseByKey_def isError_def sel split: option.splits if_splits)
  show ?thesis
    using a b by simp
qed

theorem extend_rejects_unlimited_and_expired_witness:
  "extendLicense admin noErrors utcZone
      (storeOf lockedApp (freshLicense\<lparr>expires_at := Some 1000\<rparr>))
      (fixedClock 2000) (Some ''KEY'') (Some 7)
     = (storeOf lockedApp (freshLicense\<lparr>expires_at := Some 1000\<rparr>),
        Error 400 ''Cannot extend expired license'') \<and>
   extendLicenseByKey admin noErrors utcZone
      (storeOf lockedApp (freshLicense\<lparr>expires_at := Some 1000\<rparr>))
      (fixedClock 2000) ''KEY'' (Some 7) (Some ''days'')
     = (storeOf lockedApp (freshLicense\<lparr>expires_at := Some 1000\<rparr>),
        Error 400 ''Cannot extend expired license'') \<and>
   extendLicense admin noErrors utcZone (storeOf lockedApp (freshLicense\<lparr>is_unlimited := 1\<rparr>))
      (fixedClock 2000) (Some ''KEY'') (Some 7)
     = (storeOf lockedApp (freshLicense\<lparr>is_unlimited := 1\<rparr>),
        Error 400 ''Cannot extend unlimited license'') \<and>
   extendLicenseByKey admin noErrors utcZone
      (storeOf lockedApp (freshLicense\<lparr>is_unlimited := 1\<rparr>))
      (fixedClock 2000) ''KEY'' (Some 7) (Some ''days'')
     = (storeOf lockedApp (freshLicense\<lparr>is_unlimited := 1\<rparr>),
        Error 400 ''Cannot extend unlimited license'')"
proof -
  let ?expired = "freshLicense\<lparr>expires_at := Some 1000\<rparr>"
  let ?unlimited = "freshLicense\<lparr>is_unlimited := 1\<rparr>"
  have row1: "licenses (storeOf lockedApp ?expired) ''KEY'' = Some ?expired"
    by (simp add: storeOf_def)
  have row2: "licenses (storeOf lockedApp ?unlimited) ''KEY'' = Some ?unlimited"
    by (simp add: storeOf_def)
  have past: "is_unlimited ?expired = 1 \<or> (expires_at ?expired = Some 1000 \<and> (1000 :: int) < 2000)"
    by simp
  have unl: "is_unlimited ?unlimited = 1 \<or> (expires_at ?unlimited = Some 0 \<and> (0 :: int) < 2000)"
    by (simp add: freshLicense_def)
  have now: "(2000 :: int) = fixedClock 2000 0"
    by (simp add: fixedClock_def)
  note t1 = extend_rejects_unlimited_and_expired
      [where clock = "fixedClock 2000" and c = admin and errs = noErrors and z = utcZone
         and additionalDays = "Some 7" and durationValue = "Some 7"
         and durationUnit = "Some ''days''", OF row1 past now]
  note t2 = extend_rejects_unlimited_and_expired
      [where clock = "fixedClock 2000" and c = admin and errs = noErrors and z = utcZone
         and additionalDays = "Some 7" and durationValue = "Some 7"
         and durationUnit = "Some ''days''", OF row2 unl now]
  have e1: "extendLicense admin noErrors utcZone (storeOf lockedApp ?expired) (fixedClock 2000)
        (Some ''KEY'') (Some 7)
      = (storeOf lockedApp ?expired, Error 400 ''Cannot extend expired license'')"
    by (simp add: extendLicense_def admin_def noErrors_def storeOf_def freshLicense_def
        selectLicense_def fixedClock_def)
  have e2: "extendLicenseByKey admin noErrors utcZone (storeOf lockedApp ?expired)
        (fixedClock 2000) ''KEY'' (Some 7) (Some ''days'')
      = (storeOf lockedApp ?expired, Error 400 ''Cannot extend expired license'')"
    by (simp add: extendLicenseByKey_def admin_def noErrors_def storeOf_def freshLicense_def
        selectLicense_def fixedClock_def)
  have e3: "extendLicense admin noErrors utcZone (storeOf lockedApp ?unlimited) (fixedClock 2000)
        (Some ''KEY'') (Some 7)
      = (storeOf lockedApp ?unlimited, Error 400 ''Cannot extend unlimited license'')"
    by (simp add: extendLicense_def admin_def noErrors_def storeOf_def freshLicense_def
        selectLicense_def)
  have e4: "extendLicenseByKey admin noErrors utcZone (storeOf lockedApp ?unlimited)
        (fixedClock 2000) ''KEY'' (Some 7) (Some ''days'')
      = (storeOf lockedApp ?unlimited, Error 400 ''Cannot extend unlimited license'')"
    by (simp add: extendLicenseByKey_def admin_def noErrors_def storeOf_def freshLicense_def
        selectLicense_def)
  show ?thesis
    using t1 t2 e1 e2 e3 e4 by simp
qed

end
